theory Spec2Isabelle
  imports Main "HOL-Library.AList"
begin

section \<open>Values and tree descriptions\<close>

text \<open>
  JavaScript values as far as the reconciler of \<^verbatim>\<open>vertex.js\<close> looks at them. Objects and
  functions are opaque references, compared by identity. \<open>Num n\<close> is the Number \<open>n\<close>, for the
  integers that are Number values: those that 53 significant bits hold (\<open>round_double n = n\<close>
  below), short of \<open>2 ^ 1024\<close>. The other integers, fractions, the infinities and the negative
  zero have no counterpart here. \<open>NaN\<close> is the one value that \<^verbatim>\<open>===\<close> does not hold reflexive.
\<close>

datatype jsval = Undefined | Null | Bool bool | Num int | NaN | Str string | Obj nat | Fun nat

text \<open>\<^verbatim>\<open>a === b\<close> and \<^verbatim>\<open>a !== b\<close>.\<close>

definition strict_eq :: "jsval \<Rightarrow> jsval \<Rightarrow> bool" where
  "strict_eq a b = (a = b \<and> a \<noteq> NaN)"

text \<open>Truthiness, as \<^verbatim>\<open>if (v)\<close>, \<^verbatim>\<open>v && w\<close> and \<^verbatim>\<open>!v\<close> read a value.\<close>

fun truthy :: "jsval \<Rightarrow> bool" where
  "truthy Undefined = False"
| "truthy Null = False"
| "truthy (Bool b) = b"
| "truthy (Num n) = (n \<noteq> 0)"
| "truthy NaN = False"
| "truthy (Str s) = (s \<noteq> [])"
| "truthy (Obj _) = True"
| "truthy (Fun _) = True"

text \<open>\<^verbatim>\<open>v != null\<close> is \<open>\<not> nullish v\<close>.\<close>

definition nullish :: "jsval \<Rightarrow> bool" where
  "nullish v = (v = Undefined \<or> v = Null)"

text \<open>\<^verbatim>\<open>typeof v === 'object'\<close>.\<close>

fun typeof_object :: "jsval \<Rightarrow> bool" where
  "typeof_object Null = True"
| "typeof_object (Obj _) = True"
| "typeof_object _ = False"

definition digit_char :: "nat \<Rightarrow> char" where
  "digit_char d = char_of (48 + d)"

fun digits :: "nat \<Rightarrow> string" where
  "digits n = (if n < 10 then [digit_char n] else digits (n div 10) @ [digit_char (n mod 10)])"

text \<open>
  The Number nearest to an integer: 53 significant bits, ties to the even significand. It
  is what an integer sum of two Numbers is rounded to.
\<close>

fun bitlen :: "nat \<Rightarrow> nat" where
  "bitlen n = (if n = 0 then 0 else Suc (bitlen (n div 2)))"

definition round_double :: "int \<Rightarrow> int" where
  "round_double x =
     (let a = nat \<bar>x\<bar> in
      if a < 2 ^ 53 then x
      else let e = bitlen a - 53;
               q = a div 2 ^ e;
               r = a mod 2 ^ e;
               q1 = (if 2 ^ e < 2 * r \<or> (2 * r = 2 ^ e \<and> odd q) then Suc q else q)
           in sgn x * int (q1 * 2 ^ e))"

text \<open>
  \<^verbatim>\<open>Number::toString\<close> for a Number \<open>v\<close> from \<open>2 ^ 53\<close> on, which has \<open>len\<close> decimal digits: the
  fewest digits \<open>s\<close>, with \<open>m\<close> zeros to follow, that still denote \<open>v\<close> and no other Number, and
  of two such the nearer to \<open>v\<close> (the even one, if equally near). The search is over the
  number \<open>k\<close> of digits kept.
\<close>

function short_from :: "nat \<Rightarrow> nat \<Rightarrow> nat \<Rightarrow> nat \<times> nat" where
  "short_from v len k =
     (if len \<le> k then (v, 0)
      else let q = 10 ^ (len - k);
               lo = v div q;
               hi = Suc lo;
               oklo = (0 < lo \<and> round_double (int (lo * q)) = int v);
               okhi = (round_double (int (hi * q)) = int v)
           in if oklo \<and> okhi then
                (if v - lo * q < hi * q - v then (lo, len - k)
                 else if hi * q - v < v - lo * q then (hi, len - k)
                 else if even lo then (lo, len - k) else (hi, len - k))
              else if oklo then (lo, len - k)
              else if okhi then (hi, len - k)
              else short_from v len (Suc k))"
  by pat_completeness auto
termination
  by (relation "measure (\<lambda>(v, len, k). len - k)") auto

function strip_zeros :: "nat \<times> nat \<Rightarrow> nat \<times> nat" where
  "strip_zeros (s, m) = (if 0 < s \<and> s mod 10 = 0 then strip_zeros (s div 10, Suc m) else (s, m))"
  by pat_completeness auto
termination
  by (relation "measure fst") auto

text \<open>
  The text of a Number that is not negative: plain digits up to 21 of them, and from there
  on one digit, the others behind a point, and the exponent.
\<close>

definition number_text :: "nat \<Rightarrow> string" where
  "number_text v =
     (if v < 2 ^ 53 then digits v
      else case strip_zeros (short_from v (length (digits v)) 1) of
             (s, m) \<Rightarrow>
               let ds = digits s; n = length ds + m in
               if n \<le> 21 then ds @ replicate m (CHR ''0'')
               else [hd ds] @ (if 1 < length ds then CHR ''.'' # tl ds else [])
                    @ ''e+'' @ digits (n - 1))"

text \<open>
  \<^verbatim>\<open>String(v)\<close>. An opaque object prints as a plain object does; the source text of a function
  is not part of the model and is taken to be a text fixed by the function's identity.
\<close>

fun String_js :: "jsval \<Rightarrow> string" where
  "String_js Undefined = ''undefined''"
| "String_js Null = ''null''"
| "String_js (Bool b) = (if b then ''true'' else ''false'')"
| "String_js (Num n) =
     (if n < 0 then CHR ''-'' # number_text (nat (- n)) else number_text (nat n))"
| "String_js NaN = ''NaN''"
| "String_js (Str s) = s"
| "String_js (Obj _) = ''[object Object]''"
| "String_js (Fun n) = ''function#'' @ digits n"

text \<open>
  The \<^verbatim>\<open>type\<close> of a description: a native tag or a component function (a reference into the
  table of components).
\<close>

datatype ftype = Host string | Comp nat

text \<open>
  What user code hands to the runtime as a child or returns from a component: a primitive
  or opaque value, an array, or a tree description \<^verbatim>\<open>{type, props}\<close>. The props of a
  description are its own enumerable properties other than \<^verbatim>\<open>children\<close>, in insertion order,
  and its \<^verbatim>\<open>children\<close> array.
\<close>

datatype desc = Prim jsval | Arr "desc list" | El ftype "(string \<times> jsval) list" "desc list"

type_synonym props = "(string \<times> jsval) list \<times> desc list"

fun is_array :: "desc \<Rightarrow> bool" where
  "is_array (Arr _) = True"
| "is_array _ = False"

text \<open>\<^verbatim>\<open>c === null || c === undefined || c === false\<close>.\<close>

definition dropped :: "desc \<Rightarrow> bool" where
  "dropped c = (c = Prim Null \<or> c = Prim Undefined \<or> c = Prim (Bool False))"

text \<open>\<^verbatim>\<open>typeof c === 'object'\<close> for a child value: descriptions, arrays, opaque objects, null.\<close>

fun desc_is_object :: "desc \<Rightarrow> bool" where
  "desc_is_object (Prim v) = typeof_object v"
| "desc_is_object _ = True"

text \<open>\<^verbatim>\<open>String(c)\<close> for a child value that is not an object.\<close>

fun desc_String :: "desc \<Rightarrow> string" where
  "desc_String (Prim v) = String_js v"
| "desc_String _ = ''[object Object]''"

subsection \<open>flattenChildren, flatPush, createElement\<close>

fun flattenChildren :: "desc \<Rightarrow> desc list"
  and flattenItems :: "desc list \<Rightarrow> desc list" where
  "flattenChildren (Arr xs) = flattenItems xs"
| "flattenChildren (Prim v) = (if dropped (Prim v) then [] else [Prim v])"
| "flattenChildren (El t a c) = [El t a c]"
| "flattenItems [] = []"
| "flattenItems (x # xs) =
     (if dropped x then flattenItems xs
      else if is_array x then flattenChildren x @ flattenItems xs
      else x # flattenItems xs)"

definition createTextElement :: "string \<Rightarrow> desc" where
  "createTextElement text = El (Host ''TEXT_ELEMENT'') [(''nodeValue'', Str text)] []"

fun flatPush :: "desc list \<Rightarrow> desc list \<Rightarrow> desc list"
  and flatPush1 :: "desc list \<Rightarrow> desc \<Rightarrow> desc list" where
  "flatPush out [] = out"
| "flatPush out (c # cs) = flatPush (flatPush1 out c) cs"
| "flatPush1 out (Arr xs) = flatPush out xs"
| "flatPush1 out (Prim v) =
     (if dropped (Prim v) then out
      else out @ [if typeof_object v then Prim v else createTextElement (String_js v)])"
| "flatPush1 out (El t a c) = out @ [El t a c]"

text \<open>
  \<^verbatim>\<open>createElement(type, props, ...children)\<close>: its loop over the variadic arguments has the body
  of \<^verbatim>\<open>flatPush\<close>'s loop. \<^verbatim>\<open>Object.assign({}, props, {children})\<close> keeps the other properties
  and replaces \<^verbatim>\<open>children\<close>.
\<close>

definition createElement :: "ftype \<Rightarrow> (string \<times> jsval) list \<Rightarrow> desc list \<Rightarrow> desc" where
  "createElement t a args = El t a (flatPush [] args)"

section \<open>The store\<close>

text \<open>
  Fibers, output nodes, reducer cells and hook objects are JavaScript objects that the code
  shares and mutates, so each kind lives in a store of its own, addressed by a number; the
  counter beside a store is the next free address.
\<close>

type_synonym fid = nat
type_synonym did = nat
type_synonym cid = nat
type_synonym hid = nat

text \<open>
  What the code throws. \<open>Unmodelled\<close> is no error of the code: it marks the two corners of
  \<^verbatim>\<open>reconcileChildren\<close> where the code runs on and the model does not follow it.
\<close>

datatype error = TypeError | NotFoundError | Unmodelled

datatype tag = PLACEMENT | UPDATE | DELETION

text \<open>
  A dependency list argument: left out (\<^verbatim>\<open>undefined\<close>), \<^verbatim>\<open>null\<close>, or an array.
\<close>

datatype deps = NoDeps | NullDeps | Deps "jsval list"

text \<open>
  An action handed to a dispatch handle: a plain value, or a function of the state
  (\<^verbatim>\<open>typeof action === 'function'\<close>). An initial-state argument is a plain value that is no
  function, or a function: its identity and what a call of it returns, which may be a
  function again.
\<close>

datatype act = Val jsval | Upd "jsval \<Rightarrow> jsval"

datatype initial = IVal jsval | IFun nat initial

text \<open>
  The hook objects the four hook functions store: \<^verbatim>\<open>{state, _cell}\<close>, \<^verbatim>\<open>{deps, cleanup}\<close>,
  \<^verbatim>\<open>{value, deps}\<close> and \<^verbatim>\<open>{current}\<close>. A cleanup is a function reference, or nothing
  that is a function (\<^verbatim>\<open>null\<close>, \<^verbatim>\<open>undefined\<close>).
\<close>

datatype hook =
    StateHook jsval cid
  | EffectHook deps "nat option"
  | MemoHook jsval deps
  | RefHook jsval

text \<open>Reading a property a hook object may not have gives \<^verbatim>\<open>undefined\<close>.\<close>

fun hook_deps :: "hook \<Rightarrow> deps" where
  "hook_deps (EffectHook d _) = d"
| "hook_deps (MemoHook _ d) = d"
| "hook_deps _ = NoDeps"

fun hook_cleanup :: "hook \<Rightarrow> nat option" where
  "hook_cleanup (EffectHook _ c) = c"
| "hook_cleanup _ = None"

fun hook_value :: "hook \<Rightarrow> jsval" where
  "hook_value (MemoHook v _) = v"
| "hook_value _ = Undefined"

text \<open>A pending effect \<^verbatim>\<open>{effect, oldCleanup, hook}\<close>.\<close>

record peffect =
  effect :: nat
  oldCleanup :: "nat option"
  hook :: hid

record cell =
  queue :: "act list"
  dispatch :: bool

record fiber =
  ftype :: "ftype option"
  props :: "props option"
  fdom :: "did option"
  parent :: "fid option"
  child :: "fid option"
  sibling :: "fid option"
  alternate :: "fid option"
  effectTag :: "tag option"
  hooks :: "hid option list"
  contextMap :: "(nat \<times> jsval) list option"
  pendingFx :: "peffect list option"

text \<open>
  An output node of the host document, as far as \<^verbatim>\<open>patchDom\<close> and the commit touch it:
  the properties assigned with \<^verbatim>\<open>dom[k] = v\<close>, the values written to its style since the
  style text was last replaced, the table \<^verbatim>\<open>_vxev\<close> of listener targets, the event names a
  proxy listener was attached for, and its place in the output tree.
\<close>

record domnode =
  tagName :: "string option"
  propvals :: "(string \<times> jsval) list"
  style :: "jsval list"
  vxev :: "(string \<times> jsval) list option"
  listeners :: "string list"
  childNodes :: "did list"
  parentNode :: "did option"

text \<open>
  The calls the runtime makes into the host document and into user code, in the order
  made. The log is bookkeeping of the model; \<open>RootCommitted\<close> marks the assignment
  \<^verbatim>\<open>curRoot = wipRoot\<close>.
\<close>

datatype event =
    CreateNode did
  | AppendChild did did
  | RemoveChild did did
  | PatchNode did
  | CallFactory nat
  | CallEffect nat
  | CallCleanup nat
  | RootCommitted fid

text \<open>
  The module-level variables of the reconciler, the stores, and \<open>ric_pending\<close>: the number
  of \<^verbatim>\<open>workLoop\<close> callbacks handed to \<^verbatim>\<open>ric\<close> that have not fired yet. \<open>natives\<close> lists the
  functions of \<^verbatim>\<open>Object.prototype\<close> that the reconciler has come to treat as fibers, each with
  the address it was given in the store of fibers when that first happened.
\<close>

record state =
  nextUnit :: "fid option"
  wipRoot :: "fid option"
  curRoot :: "fid option"
  deletions :: "fid list"
  wipFiber :: "fid option"
  hookIdx :: nat
  pendingEffects :: "peffect list"
  scheduled :: bool
  ric_pending :: nat
  fibers :: "fid \<Rightarrow> fiber"
  nfib :: nat
  doms :: "did \<Rightarrow> domnode"
  ndom :: nat
  cells :: "cid \<Rightarrow> cell"
  ncell :: nat
  hookobjs :: "hid \<Rightarrow> hook"
  nhook :: nat
  refcur :: "nat \<Rightarrow> did option"
  log :: "event list"
  natives :: "(string \<times> fid) list"

definition emit :: "event \<Rightarrow> state \<Rightarrow> state" where
  "emit e s = s\<lparr>log := log s @ [e]\<rparr>"

definition new_fiber :: "fiber \<Rightarrow> state \<Rightarrow> fid \<times> state" where
  "new_fiber f s = (nfib s, s\<lparr>fibers := (fibers s)(nfib s := f), nfib := Suc (nfib s)\<rparr>)"

definition set_fiber :: "fid \<Rightarrow> (fiber \<Rightarrow> fiber) \<Rightarrow> state \<Rightarrow> state" where
  "set_fiber i g s = s\<lparr>fibers := (fibers s)(i := g (fibers s i))\<rparr>"

definition set_dom :: "did \<Rightarrow> (domnode \<Rightarrow> domnode) \<Rightarrow> state \<Rightarrow> state" where
  "set_dom i g s = s\<lparr>doms := (doms s)(i := g (doms s i))\<rparr>"

text \<open>Array reads and writes by index: a read past the end is \<^verbatim>\<open>undefined\<close>, a write extends.\<close>

definition js_get :: "'a option list \<Rightarrow> nat \<Rightarrow> 'a option" where
  "js_get xs i = (if i < length xs then xs ! i else None)"

definition js_set :: "'a option list \<Rightarrow> nat \<Rightarrow> 'a \<Rightarrow> 'a option list" where
  "js_set xs i v =
     (if i < length xs then xs[i := Some v]
      else xs @ replicate (i - length xs) None @ [Some v])"

section \<open>The scheduler's entry points\<close>

text \<open>\<^verbatim>\<open>scheduleWork\<close>: \<^verbatim>\<open>ric(workLoop)\<close> registers one more callback with the host.\<close>

definition scheduleWork :: "state \<Rightarrow> state" where
  "scheduleWork s =
     (if scheduled s then s
      else s\<lparr>scheduled := True, ric_pending := Suc (ric_pending s)\<rparr>)"

text \<open>A root fiber \<^verbatim>\<open>{dom, props, alternate}\<close>: every other property is absent.\<close>

definition root_fiber :: "did option \<Rightarrow> props option \<Rightarrow> fid option \<Rightarrow> fiber" where
  "root_fiber d p a =
     \<lparr>ftype = None, props = p, fdom = d, parent = None, child = None, sibling = None,
      alternate = a, effectTag = None, hooks = [], contextMap = None, pendingFx = None\<rparr>"

definition scheduleUpdate :: "state \<Rightarrow> state" where
  "scheduleUpdate s =
     (case curRoot s of
        None \<Rightarrow> s
      | Some c \<Rightarrow>
          let (r, s1) = new_fiber (root_fiber (fdom (fibers s c)) (props (fibers s c)) (Some c)) s
          in scheduleWork (s1\<lparr>wipRoot := Some r, nextUnit := Some r, deletions := []\<rparr>))"

definition render :: "desc \<Rightarrow> did \<Rightarrow> state \<Rightarrow> state" where
  "render element container s =
     (let (r, s1) = new_fiber (root_fiber (Some container) (Some ([], [element])) (curRoot s)) s
      in scheduleWork (s1\<lparr>wipRoot := Some r, nextUnit := Some r, deletions := []\<rparr>))"

section \<open>Hooks\<close>

text \<open>\<^verbatim>\<open>typeof initial === 'function' ? initial() : initial\<close>, and the result as a value.\<close>

fun resolve :: "initial \<Rightarrow> initial" where
  "resolve (IVal v) = IVal v"
| "resolve (IFun n r) = r"

fun as_value :: "initial \<Rightarrow> jsval" where
  "as_value (IVal v) = v"
| "as_value (IFun n r) = Fun n"

definition init_value :: "initial \<Rightarrow> jsval" where
  "init_value ini = as_value (resolve ini)"

text \<open>
  \<^verbatim>\<open>wipFiber.alternate && wipFiber.alternate.hooks[hookIdx]\<close>, for the fiber \<open>w\<close> being rendered.
\<close>

definition oldHook_of :: "state \<Rightarrow> fid \<Rightarrow> hid option" where
  "oldHook_of s w =
     (case alternate (fibers s w) of
        None \<Rightarrow> None
      | Some a \<Rightarrow> js_get (hooks (fibers s a)) (hookIdx s))"

text \<open>\<^verbatim>\<open>wipFiber.hooks[hookIdx++] = hook\<close>, with the hook object freshly allocated.\<close>

definition push_hook :: "fid \<Rightarrow> hook \<Rightarrow> state \<Rightarrow> hid \<times> state" where
  "push_hook w h s =
     (let i = nhook s;
          s1 = s\<lparr>hookobjs := (hookobjs s)(i := h), nhook := Suc i\<rparr>;
          s2 = set_fiber w (\<lambda>f. f\<lparr>hooks := js_set (hooks f) (hookIdx s) i\<rparr>) s1
      in (i, s2\<lparr>hookIdx := Suc (hookIdx s)\<rparr>))"

text \<open>
  \<^verbatim>\<open>cell.dispatch\<close>: the handle closes over its cell, so it is identified by the cell's address.
\<close>

definition dispatch_handle :: "cid \<Rightarrow> act \<Rightarrow> state \<Rightarrow> state" where
  "dispatch_handle c a s =
     scheduleUpdate (s\<lparr>cells := (cells s)(c := (cells s c)\<lparr>queue := queue (cells s c) @ [a]\<rparr>)\<rparr>)"

text \<open>
  \<^verbatim>\<open>useReducer(reducer, initial)\<close> returns \<^verbatim>\<open>[hook.state, cell.dispatch]\<close>. Reading
  \<^verbatim>\<open>wipFiber.alternate\<close> with no fiber being rendered, and reading \<^verbatim>\<open>cell.queue\<close> when the
  old hook object has no \<^verbatim>\<open>_cell\<close>, throw.
\<close>

definition useReducer ::
  "(jsval \<Rightarrow> act \<Rightarrow> jsval) \<Rightarrow> initial \<Rightarrow> state \<Rightarrow> error + ((jsval \<times> cid) \<times> state)" where
  "useReducer reducer ini s =
     (case wipFiber s of
        None \<Rightarrow> Inl TypeError
      | Some w \<Rightarrow>
          (case oldHook_of s w of
             None \<Rightarrow>
               let c = ncell s;
                   st = foldl reducer (init_value ini) [];
                   s1 = s\<lparr>cells := (cells s)(c := \<lparr>queue = [], dispatch = True\<rparr>),
                          ncell := Suc c\<rparr>;
                   (h, s2) = push_hook w (StateHook st c) s1
               in Inr ((st, c), s2)
           | Some oh \<Rightarrow>
               (case hookobjs s oh of
                  StateHook st0 c \<Rightarrow>
                    let st = foldl reducer st0 (queue (cells s c));
                        s1 = s\<lparr>cells := (cells s)(c := \<lparr>queue = [], dispatch = True\<rparr>)\<rparr>;
                        (h, s2) = push_hook w (StateHook st c) s1
                    in Inr ((st, c), s2)
                | _ \<Rightarrow> Inl TypeError)))"

text \<open>The reducer \<^verbatim>\<open>useState\<close> passes on.\<close>

fun state_reducer :: "jsval \<Rightarrow> act \<Rightarrow> jsval" where
  "state_reducer st (Upd f) = f st"
| "state_reducer st (Val v) = v"

text \<open>
  \<^verbatim>\<open>useState\<close> resolves a function \<^verbatim>\<open>initial\<close> on every render and hands the result to
  \<^verbatim>\<open>useReducer\<close>, which on the first render resolves what it is handed once more.
\<close>

definition useState :: "initial \<Rightarrow> state \<Rightarrow> error + ((jsval \<times> cid) \<times> state)" where
  "useState ini s = useReducer state_reducer (resolve ini) s"

text \<open>\<^verbatim>\<open>oldHook.deps && oldHook.deps[i]\<close>.\<close>

fun old_dep :: "deps \<Rightarrow> nat \<Rightarrow> jsval" where
  "old_dep NoDeps i = Undefined"
| "old_dep NullDeps i = Null"
| "old_dep (Deps xs) i = (if i < length xs then xs ! i else Undefined)"

text \<open>\<^verbatim>\<open>deps.some(function (d, i) { return d !== (oldHook.deps && oldHook.deps[i]); })\<close>,
  from index \<open>i\<close> on.\<close>

fun some_differs :: "jsval list \<Rightarrow> nat \<Rightarrow> deps \<Rightarrow> bool" where
  "some_differs [] i old = False"
| "some_differs (d # ds) i old = (if \<not> strict_eq d (old_dep old i) then True else some_differs ds (Suc i) old)"

text \<open>\<^verbatim>\<open>!oldHook || !deps || deps.some(...)\<close>.\<close>

definition depsChanged :: "hook option \<Rightarrow> deps \<Rightarrow> bool" where
  "depsChanged oldHook d =
     (case oldHook of
        None \<Rightarrow> True
      | Some oh \<Rightarrow> (case d of Deps ds \<Rightarrow> some_differs ds 0 (hook_deps oh) | _ \<Rightarrow> True))"

definition useEffect :: "nat \<Rightarrow> deps \<Rightarrow> state \<Rightarrow> error + state" where
  "useEffect eff d s =
     (case wipFiber s of
        None \<Rightarrow> Inl TypeError
      | Some w \<Rightarrow>
          let oldHook = map_option (hookobjs s) (oldHook_of s w);
              changed = depsChanged oldHook d;
              oc = (case oldHook of None \<Rightarrow> None | Some oh \<Rightarrow> hook_cleanup oh);
              i = nhook s;
              s1 = (if changed
                    then set_fiber w (\<lambda>f. f\<lparr>pendingFx :=
                           Some ((case pendingFx f of None \<Rightarrow> [] | Some q \<Rightarrow> q)
                                 @ [\<lparr>effect = eff, oldCleanup = oc, hook = i\<rparr>])\<rparr>) s
                    else s);
              (h, s2) = push_hook w (EffectHook d oc) s1
          in Inr s2)"

text \<open>
  \<^verbatim>\<open>useMemo(factory, deps)\<close>; the factory is a function reference \<open>fac\<close> whose call returns
  \<open>result\<close>.
\<close>

definition useMemo :: "nat \<Rightarrow> jsval \<Rightarrow> deps \<Rightarrow> state \<Rightarrow> error + (jsval \<times> state)" where
  "useMemo fac result d s =
     (case wipFiber s of
        None \<Rightarrow> Inl TypeError
      | Some w \<Rightarrow>
          let oldHook = map_option (hookobjs s) (oldHook_of s w);
              changed = depsChanged oldHook d;
              v = (if changed then result
                   else (case oldHook of None \<Rightarrow> Undefined | Some oh \<Rightarrow> hook_value oh));
              s1 = (if changed then emit (CallFactory fac) s else s);
              (h, s2) = push_hook w (MemoHook v d) s1
          in Inr (v, s2))"

section \<open>Output nodes\<close>

text \<open>
  The host document is not code of the library. \<^verbatim>\<open>appendChild\<close> moves a node that already
  has a parent, and \<^verbatim>\<open>removeChild\<close> throws when the node is not a child of the given parent,
  as the DOM standard has them.
\<close>

definition appendChild :: "did \<Rightarrow> did \<Rightarrow> state \<Rightarrow> state" where
  "appendChild p d s =
     (let s1 = (case parentNode (doms s d) of
                  None \<Rightarrow> s
                | Some q \<Rightarrow> set_dom q (\<lambda>n. n\<lparr>childNodes := remove1 d (childNodes n)\<rparr>) s);
          s2 = set_dom p (\<lambda>n. n\<lparr>childNodes := childNodes n @ [d]\<rparr>) s1;
          s3 = set_dom d (\<lambda>n. n\<lparr>parentNode := Some p\<rparr>) s2
      in emit (AppendChild p d) s3)"

definition removeChild :: "did \<Rightarrow> did \<Rightarrow> state \<Rightarrow> error + state" where
  "removeChild p d s =
     (if parentNode (doms s d) = Some p
      then Inr (emit (RemoveChild p d)
             (set_dom d (\<lambda>n. n\<lparr>parentNode := None\<rparr>)
               (set_dom p (\<lambda>n. n\<lparr>childNodes := remove1 d (childNodes n)\<rparr>) s)))
      else Inl NotFoundError)"

text \<open>\<^verbatim>\<open>k.charCodeAt(0) === 111 && k.charCodeAt(1) === 110 && k.length > 2\<close>.\<close>

fun isEventProp :: "string \<Rightarrow> bool" where
  "isEventProp (a # b # c # _) = (a = CHR ''o'' \<and> b = CHR ''n'')"
| "isEventProp _ = False"

definition isRealProp :: "string \<Rightarrow> bool" where
  "isRealProp k = (k \<noteq> ''children'' \<and> k \<noteq> ''ref'' \<and> \<not> isEventProp k)"

text \<open>\<^verbatim>\<open>toLowerCase\<close> on the ASCII letters.\<close>

definition lower_char :: "char \<Rightarrow> char" where
  "lower_char c =
     (let n = (of_char c :: nat) in if 65 \<le> n \<and> n \<le> 90 then char_of (n + 32) else c)"

text \<open>\<^verbatim>\<open>k.slice(2).toLowerCase()\<close>.\<close>

definition event_name :: "string \<Rightarrow> string" where
  "event_name k = map lower_char (drop 2 k)"

text \<open>\<^verbatim>\<open>o[k]\<close> on a props object.\<close>

definition prop_get :: "(string \<times> jsval) list \<Rightarrow> string \<Rightarrow> jsval" where
  "prop_get a k = (case map_of a k of None \<Rightarrow> Undefined | Some v \<Rightarrow> v)"

definition has_key :: "(string \<times> 'a) list \<Rightarrow> string \<Rightarrow> bool" where
  "has_key a k = (k \<in> fst ` set a)"

definition setStableListener :: "string \<Rightarrow> jsval \<Rightarrow> domnode \<Rightarrow> domnode" where
  "setStableListener evName fn d =
     (let tab = (case vxev d of None \<Rightarrow> [] | Some t \<Rightarrow> t)
      in if has_key tab evName
         then d\<lparr>vxev := Some (AList.update evName fn tab)\<rparr>
         else d\<lparr>vxev := Some (AList.update evName fn tab), listeners := listeners d @ [evName]\<rparr>)"

text \<open>
  Pass 1 of \<^verbatim>\<open>patchDom\<close> over the properties of \<^verbatim>\<open>prev\<close>; \<open>nx\<close> is \<^verbatim>\<open>next\<close>, and \<^verbatim>\<open>k in next\<close>
  throws when \<^verbatim>\<open>next\<close> is \<^verbatim>\<open>undefined\<close>.
\<close>

fun patch_remove :: "(string \<times> jsval) list \<Rightarrow> props option \<Rightarrow> domnode \<Rightarrow> error + domnode" where
  "patch_remove [] nx d = Inr d"
| "patch_remove ((k, v) # ps) nx d =
     (if \<not> isRealProp k then
        (if isEventProp k then
           (case nx of
              None \<Rightarrow> Inl TypeError
            | Some (na, nc) \<Rightarrow>
                (if \<not> has_key na k \<and> vxev d \<noteq> None
                 then patch_remove ps nx
                        (d\<lparr>vxev := Some (AList.update (event_name k) Null (the (vxev d)))\<rparr>)
                 else patch_remove ps nx d))
         else patch_remove ps nx d)
      else
        (case nx of
           None \<Rightarrow> Inl TypeError
         | Some (na, nc) \<Rightarrow>
             (if \<not> has_key na k then
                (if k = ''className'' then
                   patch_remove ps nx (d\<lparr>propvals := AList.update ''className'' (Str []) (propvals d)\<rparr>)
                 else if k = ''style'' then patch_remove ps nx (d\<lparr>style := []\<rparr>)
                 else patch_remove ps nx (d\<lparr>propvals := AList.update k (Str []) (propvals d)\<rparr>))
              else patch_remove ps nx d)))"

text \<open>
  Pass 2 over the properties of \<^verbatim>\<open>next\<close>; \<open>pv\<close> is \<^verbatim>\<open>prev\<close>, and \<^verbatim>\<open>prev[k]\<close> throws when
  \<^verbatim>\<open>prev\<close> is \<^verbatim>\<open>undefined\<close>. Assigning a text to \<^verbatim>\<open>dom.style\<close> replaces the style text.
\<close>

fun patch_apply :: "(string \<times> jsval) list \<Rightarrow> props option \<Rightarrow> domnode \<Rightarrow> error + domnode" where
  "patch_apply [] pv d = Inr d"
| "patch_apply ((k, v) # ns) pv d =
     (if \<not> isRealProp k then
        (if isEventProp k then patch_apply ns pv (setStableListener (event_name k) v d)
         else patch_apply ns pv d)
      else
        (case pv of
           None \<Rightarrow> Inl TypeError
         | Some (pa, pc) \<Rightarrow>
             (if strict_eq (prop_get pa k) v then patch_apply ns pv d
              else if k = ''className'' then
                patch_apply ns pv (d\<lparr>propvals := AList.update ''className'' v (propvals d)\<rparr>)
              else if k = ''style'' \<and> typeof_object v then
                patch_apply ns pv (if v = Null then d else d\<lparr>style := style d @ [v]\<rparr>)
              else if k = ''style'' then patch_apply ns pv (d\<lparr>style := [v]\<rparr>)
              else patch_apply ns pv (d\<lparr>propvals := AList.update k v (propvals d)\<rparr>))))"

definition patchDom :: "props option \<Rightarrow> props option \<Rightarrow> domnode \<Rightarrow> error + domnode" where
  "patchDom pv nx d =
     (case patch_remove (case pv of None \<Rightarrow> [] | Some (pa, pc) \<Rightarrow> pa) nx d of
        Inl e \<Rightarrow> Inl e
      | Inr d1 \<Rightarrow> patch_apply (case nx of None \<Rightarrow> [] | Some (na, nc) \<Rightarrow> na) pv d1)"

text \<open>
  \<^verbatim>\<open>fiber.props.ref.current = dom\<close>, when \<^verbatim>\<open>fiber.props.ref\<close> is an object. (In \<^verbatim>\<open>createDom\<close>
  the test also excludes \<^verbatim>\<open>null\<close>, which is falsy already.)
\<close>

definition wire_ref :: "props option \<Rightarrow> did \<Rightarrow> state \<Rightarrow> state" where
  "wire_ref p d s =
     (case p of
        None \<Rightarrow> s
      | Some (a, c) \<Rightarrow>
          (case prop_get a ''ref'' of
             Obj r \<Rightarrow> s\<lparr>refcur := (refcur s)(r := Some d)\<rparr>
           | _ \<Rightarrow> s))"

text \<open>
  \<^verbatim>\<open>createDom\<close>: a text node for \<^verbatim>\<open>'TEXT_ELEMENT'\<close>, else \<^verbatim>\<open>document.createElement\<close> of the
  type converted to a tag name (every tag name is taken to be one the host accepts).
\<close>

definition tag_of :: "ftype option \<Rightarrow> string option" where
  "tag_of t =
     (case t of
        None \<Rightarrow> Some ''undefined''
      | Some (Host n) \<Rightarrow> (if n = ''TEXT_ELEMENT'' then None else Some n)
      | Some (Comp n) \<Rightarrow> Some (String_js (Fun n)))"

definition fresh_node :: "string option \<Rightarrow> domnode" where
  "fresh_node t =
     \<lparr>tagName = t, propvals = [], style = [], vxev = None, listeners = [],
      childNodes = [], parentNode = None\<rparr>"

definition createDom :: "fid \<Rightarrow> state \<Rightarrow> error + (did \<times> state)" where
  "createDom f s =
     (case patchDom (Some ([], [])) (props (fibers s f)) (fresh_node (tag_of (ftype (fibers s f)))) of
        Inl e \<Rightarrow> Inl e
      | Inr n \<Rightarrow>
          let d = ndom s;
              s1 = emit (CreateNode d) (s\<lparr>doms := (doms s)(d := n), ndom := Suc d\<rparr>)
          in Inr (d, wire_ref (props (fibers s f)) d s1))"

section \<open>Reconciliation\<close>

text \<open>What \<^verbatim>\<open>el && ...\<close>, \<^verbatim>\<open>el.type\<close> and \<^verbatim>\<open>el.props\<close> give for a child value.\<close>

fun desc_truthy :: "desc \<Rightarrow> bool" where
  "desc_truthy (Prim v) = truthy v"
| "desc_truthy _ = True"

text \<open>\<^verbatim>\<open>el && el.props && el.props.key\<close>.\<close>

fun el_key :: "desc \<Rightarrow> jsval" where
  "el_key (Prim v) = (if truthy v then Undefined else v)"
| "el_key (Arr _) = Undefined"
| "el_key (El t a c) = prop_get a ''key''"

text \<open>\<^verbatim>\<open>el.type\<close> and \<^verbatim>\<open>el.props\<close>; both throw on \<^verbatim>\<open>null\<close> and \<^verbatim>\<open>undefined\<close>.\<close>

fun el_type :: "desc \<Rightarrow> error + ftype option" where
  "el_type (Prim v) = (if nullish v then Inl TypeError else Inr None)"
| "el_type (Arr _) = Inr None"
| "el_type (El t a c) = Inr (Some t)"

fun el_props :: "desc \<Rightarrow> props option" where
  "el_props (El t a c) = Some (a, c)"
| "el_props _ = None"

text \<open>\<^verbatim>\<open>scan.props && scan.props.key\<close>.\<close>

definition fiber_key :: "fiber \<Rightarrow> jsval" where
  "fiber_key f = (case props f of None \<Rightarrow> Undefined | Some (a, c) \<Rightarrow> prop_get a ''key'')"

text \<open>
  The key map is a plain object. Its own properties are kept here in the order they were
  added. A \<^verbatim>\<open>for-in\<close> loop visits the array indices among them first, in ascending order,
  and the other names after them in the order they were added.
\<close>

definition is_digit :: "char \<Rightarrow> bool" where
  "is_digit c = (48 \<le> (of_char c :: nat) \<and> (of_char c :: nat) \<le> 57)"

definition array_index :: "string \<Rightarrow> nat option" where
  "array_index k =
     (if k \<noteq> [] \<and> list_all is_digit k \<and> (k = ''0'' \<or> hd k \<noteq> CHR ''0'')
         \<and> foldl (\<lambda>n c. 10 * n + (of_char c - 48)) 0 k < (4294967295 :: nat)
      then Some (foldl (\<lambda>n c. 10 * n + (of_char c - 48)) 0 k) else None)"

definition enum_order :: "(string \<times> 'a) list \<Rightarrow> (string \<times> 'a) list" where
  "enum_order m =
     sort_key (\<lambda>kv. the (array_index (fst kv))) (filter (\<lambda>kv. array_index (fst kv) \<noteq> None) m)
     @ filter (\<lambda>kv. array_index (fst kv) = None) m"

text \<open>
  What a plain object inherits from \<^verbatim>\<open>Object.prototype\<close>: eleven functions, and the accessor
  \<^verbatim>\<open>__proto__\<close>, which reads as the prototype itself and on assignment of an object replaces
  it. None of them is enumerable.
\<close>

definition proto_members :: "string list" where
  "proto_members =
     [''__proto__'', ''constructor'', ''__defineGetter__'', ''__defineSetter__'', ''hasOwnProperty'',
      ''__lookupGetter__'', ''__lookupSetter__'', ''isPrototypeOf'', ''propertyIsEnumerable'',
      ''toString'', ''valueOf'', ''toLocaleString'']"

text \<open>
  An object that is no fiber, read as one: every property of a fiber is absent. The object
  for an inherited name is entered in the store of fibers when the reconciler first comes
  upon it; under \<^verbatim>\<open>__proto__\<close> it is \<^verbatim>\<open>Object.prototype\<close> itself.
\<close>

definition no_fiber :: fiber where
  "no_fiber =
     \<lparr>ftype = None, props = None, fdom = None, parent = None, child = None, sibling = None,
      alternate = None, effectTag = None, hooks = [], contextMap = None, pendingFx = None\<rparr>"

definition native_object :: "string \<Rightarrow> state \<Rightarrow> fid \<times> state" where
  "native_object k s =
     (case map_of (natives s) k of
        Some f \<Rightarrow> (f, s)
      | None \<Rightarrow>
          (case new_fiber no_fiber s of
             (f, s1) \<Rightarrow> (f, s1\<lparr>natives := natives s1 @ [(k, f)]\<rparr>)))"

text \<open>
  The first loop of \<^verbatim>\<open>reconcileChildren\<close>, over the old sibling chain. \<open>keyMap\<close> is \<^verbatim>\<open>null\<close> or
  the own properties of the object; \<open>proto\<close> is the fiber that an assignment to
  \<^verbatim>\<open>keyMap['__proto__']\<close> has made the prototype of the key map, if there was one.
\<close>

partial_function (option) scan_old ::
  "state \<Rightarrow> fid option \<Rightarrow> (string \<times> fid) list option \<Rightarrow> fid list \<Rightarrow> fid option
    \<Rightarrow> ((string \<times> fid) list option \<times> fid list \<times> fid option) option" where
  "scan_old s scan keyMap byPos proto =
     (case scan of
        None \<Rightarrow> Some (keyMap, byPos, proto)
      | Some f \<Rightarrow>
          (if \<not> nullish (fiber_key (fibers s f))
           then (if String_js (fiber_key (fibers s f)) = ''__proto__''
                 then scan_old s (sibling (fibers s f))
                        (Some (case keyMap of None \<Rightarrow> [] | Some km \<Rightarrow> km)) byPos (Some f)
                 else scan_old s (sibling (fibers s f))
                        (Some (AList.update (String_js (fiber_key (fibers s f))) f
                           (case keyMap of None \<Rightarrow> [] | Some km \<Rightarrow> km))) byPos proto)
           else scan_old s (sibling (fibers s f)) keyMap (byPos @ [f]) proto))"

declare scan_old.simps [code]

text \<open>\<^verbatim>\<open>old.effectTag = DELETION; deletions.push(old)\<close>.\<close>

definition mark_deletion :: "fid \<Rightarrow> state \<Rightarrow> state" where
  "mark_deletion f s =
     (set_fiber f (\<lambda>x. x\<lparr>effectTag := Some DELETION\<rparr>) s)\<lparr>deletions := deletions s @ [f]\<rparr>"

text \<open>
  The lookup of the old fiber for a description, while the prototype of the key map is
  \<^verbatim>\<open>Object.prototype\<close>: the result, the key map, \<^verbatim>\<open>posIdx\<close> and the state. A name that is no
  own property of the key map but one of \<^verbatim>\<open>Object.prototype\<close> finds the inherited object,
  which is truthy, and \<^verbatim>\<open>delete\<close> then removes nothing.
\<close>

definition find_old ::
  "desc \<Rightarrow> (string \<times> fid) list option \<Rightarrow> fid list \<Rightarrow> nat \<Rightarrow> state
    \<Rightarrow> fid option \<times> (string \<times> fid) list option \<times> nat \<times> state" where
  "find_old el keyMap byPos posIdx s =
     (if \<not> nullish (el_key el) then
        (case keyMap of
           None \<Rightarrow> (None, keyMap, posIdx, s)
         | Some km \<Rightarrow>
             (case map_of km (String_js (el_key el)) of
                Some old \<Rightarrow> (Some old, Some (AList.delete (String_js (el_key el)) km), posIdx, s)
              | None \<Rightarrow>
                  (if String_js (el_key el) \<in> set proto_members
                   then (case native_object (String_js (el_key el)) s of
                           (f, s1) \<Rightarrow> (Some f, keyMap, posIdx, s1))
                   else (None, keyMap, posIdx, s))))
      else ((if posIdx < length byPos then Some (byPos ! posIdx) else None), keyMap, Suc posIdx, s))"

text \<open>\<^verbatim>\<open>var sameType = old && el && old.type === el.type\<close>.\<close>

definition sameType :: "state \<Rightarrow> fid option \<Rightarrow> desc \<Rightarrow> bool" where
  "sameType s old el =
     (case old of
        None \<Rightarrow> False
      | Some ol \<Rightarrow> desc_truthy el \<and> el_type el = Inr (ftype (fibers s ol)))"

text \<open>The two fiber objects the loop makes, for the parent \<open>p\<close>.\<close>

definition update_fiber :: "state \<Rightarrow> fid \<Rightarrow> fid \<Rightarrow> desc \<Rightarrow> fiber" where
  "update_fiber s p ol el =
     \<lparr>ftype = ftype (fibers s ol), props = el_props el, fdom = fdom (fibers s ol),
      parent = Some p, child = None, sibling = None, alternate = Some ol,
      effectTag = Some UPDATE, hooks = [],
      contextMap = contextMap (fibers s p), pendingFx = None\<rparr>"

definition placement_fiber :: "state \<Rightarrow> fid \<Rightarrow> ftype option \<Rightarrow> desc \<Rightarrow> fiber" where
  "placement_fiber s p t el =
     \<lparr>ftype = t, props = el_props el, fdom = None,
      parent = Some p, child = None, sibling = None, alternate = None,
      effectTag = Some PLACEMENT, hooks = [],
      contextMap = contextMap (fibers s p), pendingFx = None\<rparr>"

text \<open>\<^verbatim>\<open>if (i === 0) fiber.child = newFiber; else if (prev) prev.sibling = newFiber;\<close>\<close>

definition link_fiber :: "fid \<Rightarrow> nat \<Rightarrow> fid option \<Rightarrow> fid \<Rightarrow> state \<Rightarrow> state" where
  "link_fiber p i prev n s =
     (if i = 0 then set_fiber p (\<lambda>x. x\<lparr>child := Some n\<rparr>) s
      else (case prev of
              None \<Rightarrow> s
            | Some q \<Rightarrow> set_fiber q (\<lambda>x. x\<lparr>sibling := Some n\<rparr>) s))"

text \<open>
  The body of the main loop for the description \<open>el\<close> at index \<open>i\<close>, once the old fiber
  \<open>old\<close> has been looked up: the new fiber and the state.
\<close>

definition reconcile_one ::
  "fid \<Rightarrow> nat \<Rightarrow> fid option \<Rightarrow> desc \<Rightarrow> fid option \<Rightarrow> state \<Rightarrow> error + (fid \<times> state)" where
  "reconcile_one p i prev el old s =
     (case (old, sameType s old el) of
        (Some ol, True) \<Rightarrow>
          (case new_fiber (update_fiber s p ol el) s of
             (n, s1) \<Rightarrow> Inr (n, link_fiber p i prev n s1))
      | _ \<Rightarrow>
          (case el_type el of
             Inl e \<Rightarrow> Inl e
           | Inr t \<Rightarrow>
               (case new_fiber (placement_fiber s p t el)
                       (case old of None \<Rightarrow> s | Some ol \<Rightarrow> mark_deletion ol s) of
                  (n, s1) \<Rightarrow> Inr (n, link_fiber p i prev n s1))))"

text \<open>
  The main loop, from index \<open>i\<close> on; \<open>p\<close> is the fiber being reconciled and \<open>prev\<close> the
  fiber made last.
\<close>

fun reconcile_loop ::
  "fid \<Rightarrow> fid list \<Rightarrow> desc list \<Rightarrow> nat \<Rightarrow> (string \<times> fid) list option \<Rightarrow> nat \<Rightarrow> fid option
    \<Rightarrow> state \<Rightarrow> error + ((string \<times> fid) list option \<times> nat \<times> fid option \<times> state)" where
  "reconcile_loop p byPos [] i keyMap posIdx prev s = Inr (keyMap, posIdx, prev, s)"
| "reconcile_loop p byPos (el # els) i keyMap posIdx prev s =
     (case find_old el keyMap byPos posIdx s of
        (old, keyMap1, posIdx1, s0) \<Rightarrow>
          (case reconcile_one p i prev el old s0 of
             Inl e \<Rightarrow> Inl e
           | Inr (n, s1) \<Rightarrow> reconcile_loop p byPos els (Suc i) keyMap1 posIdx1 (Some n) s1))"

text \<open>
  The own properties of the key map that no keyed description names: what the main loop
  leaves in it.
\<close>

definition unclaimed :: "(string \<times> fid) list \<Rightarrow> desc list \<Rightarrow> (string \<times> fid) list" where
  "unclaimed km els =
     filter (\<lambda>kv. fst kv \<notin> set (map (\<lambda>el. String_js (el_key el))
                                    (filter (\<lambda>el. \<not> nullish (el_key el)) els))) km"

text \<open>
  \<^verbatim>\<open>reconcileChildren\<close>. Two cases end by a rule of their own, because the code comes to
  treat as fibers values that the model has no fiber for.

  \<^item> An old sibling has the key \<^verbatim>\<open>__proto__\<close>: the key map inherits the properties of that
    fiber, and the last loop, \<^verbatim>\<open>for (mk in keyMap)\<close>, visits them after the own ones. Its
    \<^verbatim>\<open>effectTag\<close> is a string and its \<^verbatim>\<open>contextMap\<close> is \<^verbatim>\<open>null\<close>, and the file is in strict mode:
    the assignment \<^verbatim>\<open>keyMap[mk].effectTag = DELETION\<close> throws for either, unless an own
    property of that name hides it. Whatever the main loop does before, it throws nothing
    but a \<^verbatim>\<open>TypeError\<close> and leaves the own properties as \<open>unclaimed\<close> gives them.
  \<^item> A description with the key \<^verbatim>\<open>__proto__\<close> finds \<^verbatim>\<open>Object.prototype\<close>, which is tagged:
    from then on every object inherits an enumerable \<^verbatim>\<open>effectTag\<close> holding a string, and the
    last loop throws on it unless an own property hides it.

  Where the hiding own properties are there, the code goes on, and the model does not
  follow it: the result is \<open>Unmodelled\<close>, which is no error of the code.
\<close>

definition reconcileChildren :: "fid \<Rightarrow> desc list \<Rightarrow> state \<Rightarrow> (error + state) option" where
  "reconcileChildren p elements s =
     (case scan_old s
             (case alternate (fibers s p) of None \<Rightarrow> None | Some a \<Rightarrow> child (fibers s a))
             None [] None of
        None \<Rightarrow> None
      | Some (keyMap, byPos, proto) \<Rightarrow>
          Some (case proto of
                  Some f \<Rightarrow>
                    (let rest = unclaimed (case keyMap of None \<Rightarrow> [] | Some km \<Rightarrow> km) elements
                     in if has_key rest ''effectTag'' \<and> has_key rest ''contextMap''
                        then Inl Unmodelled else Inl TypeError)
                | None \<Rightarrow>
                    (case reconcile_loop p byPos elements 0 keyMap 0 None s of
                       Inl e \<Rightarrow> Inl e
                     | Inr (keyMap1, posIdx, prev, s1) \<Rightarrow>
                         (case keyMap1 of
                            None \<Rightarrow>
                              let s2 = fold mark_deletion (drop posIdx byPos) s1
                              in Inr (case prev of
                                        None \<Rightarrow> s2
                                      | Some q \<Rightarrow> set_fiber q (\<lambda>x. x\<lparr>sibling := None\<rparr>) s2)
                          | Some km \<Rightarrow>
                              if has_key (natives s1) ''__proto__''
                              then (if has_key km ''effectTag'' then Inl Unmodelled
                                    else Inl TypeError)
                              else
                                let s2 = fold mark_deletion (drop posIdx byPos) s1;
                                    s3 = fold mark_deletion (map snd (enum_order km)) s2
                                in Inr (case prev of
                                          None \<Rightarrow> s3
                                        | Some q \<Rightarrow>
                                            set_fiber q (\<lambda>x. x\<lparr>sibling := None\<rparr>) s3)))))"

section \<open>Per-fiber work\<close>

text \<open>
  A component function, as far as the runtime can tell: the hook calls it makes, in order,
  each continued with what the hook returned, and the value it returns. User code calls a
  dispatch handle between two callbacks of the scheduler (from an event handler, or after an
  effect), never while a component renders. Context providers are left out:
  \<^verbatim>\<open>_ctxProvide\<close> is never set, so the branch of \<^verbatim>\<open>updateFunctionComponent\<close> that merges it
  is never taken.
\<close>

datatype prog =
    Return desc
  | UseReducer "jsval \<Rightarrow> act \<Rightarrow> jsval" initial "jsval \<Rightarrow> cid \<Rightarrow> prog"
  | UseState initial "jsval \<Rightarrow> cid \<Rightarrow> prog"
  | UseEffect nat deps prog
  | UseMemo nat jsval deps "jsval \<Rightarrow> prog"

primrec run_prog :: "prog \<Rightarrow> state \<Rightarrow> error + (desc \<times> state)" where
  "run_prog (Return d) = (\<lambda>s. Inr (d, s))"
| "run_prog (UseReducer r ini k) =
     (\<lambda>s. case useReducer r ini s of
             Inl e \<Rightarrow> Inl e
           | Inr ((v, c), s1) \<Rightarrow> run_prog (k v c) s1)"
| "run_prog (UseState ini k) =
     (\<lambda>s. case useState ini s of
             Inl e \<Rightarrow> Inl e
           | Inr ((v, c), s1) \<Rightarrow> run_prog (k v c) s1)"
| "run_prog (UseEffect eff d p) =
     (\<lambda>s. case useEffect eff d s of
             Inl e \<Rightarrow> Inl e
           | Inr s1 \<Rightarrow> run_prog p s1)"
| "run_prog (UseMemo fac result d k) =
     (\<lambda>s. case useMemo fac result d s of
             Inl e \<Rightarrow> Inl e
           | Inr (v, s1) \<Rightarrow> run_prog (k v) s1)"

text \<open>The table of component functions: the program a component runs on given props.\<close>

type_synonym components = "nat \<Rightarrow> props option \<Rightarrow> prog"

text \<open>\<^verbatim>\<open>wipFiber = fiber; hookIdx = 0; wipFiber.hooks = []\<close>.\<close>

definition begin_render :: "fid \<Rightarrow> state \<Rightarrow> state" where
  "begin_render f s = (set_fiber f (\<lambda>x. x\<lparr>hooks := []\<rparr>) s)\<lparr>wipFiber := Some f, hookIdx := 0\<rparr>"

definition updateFunctionComponent ::
  "components \<Rightarrow> fid \<Rightarrow> nat \<Rightarrow> state \<Rightarrow> (error + state) option" where
  "updateFunctionComponent \<Gamma> f c s =
     (case run_prog (\<Gamma> c (props (fibers s f))) (begin_render f s) of
        Inl e \<Rightarrow> Some (Inl e)
      | Inr (output, s1) \<Rightarrow> reconcileChildren f (flattenChildren output) s1)"

definition updateHostComponent :: "fid \<Rightarrow> state \<Rightarrow> (error + state) option" where
  "updateHostComponent f s =
     (case (case fdom (fibers s f) of
              Some d \<Rightarrow> Inr s
            | None \<Rightarrow>
                (case createDom f s of
                   Inl e \<Rightarrow> Inl e
                 | Inr (d, s1) \<Rightarrow> Inr (set_fiber f (\<lambda>x. x\<lparr>fdom := Some d\<rparr>) s1))) of
        Inl e \<Rightarrow> Some (Inl e)
      | Inr s1 \<Rightarrow>
          (case props (fibers s1 f) of
             None \<Rightarrow> Some (Inl TypeError)
           | Some (a, c) \<Rightarrow> reconcileChildren f c s1))"

text \<open>The search for the next unit once a fiber has no child: sibling, else up.\<close>

partial_function (option) next_up :: "state \<Rightarrow> fid option \<Rightarrow> fid option option" where
  "next_up s nxt =
     (case nxt of
        None \<Rightarrow> Some None
      | Some f \<Rightarrow>
          (case sibling (fibers s f) of
             Some sb \<Rightarrow> Some (Some sb)
           | None \<Rightarrow> next_up s (parent (fibers s f))))"

declare next_up.simps [code]

definition performUnit ::
  "components \<Rightarrow> fid \<Rightarrow> state \<Rightarrow> (error + (fid option \<times> state)) option" where
  "performUnit \<Gamma> f s =
     (case (case ftype (fibers s f) of
              Some (Comp c) \<Rightarrow> updateFunctionComponent \<Gamma> f c s
            | _ \<Rightarrow> updateHostComponent f s) of
        None \<Rightarrow> None
      | Some (Inl e) \<Rightarrow> Some (Inl e)
      | Some (Inr s1) \<Rightarrow>
          (case child (fibers s1 f) of
             Some c \<Rightarrow> Some (Inr (Some c, s1))
           | None \<Rightarrow>
               (case next_up s1 (Some f) of
                  None \<Rightarrow> None
                | Some n \<Rightarrow> Some (Inr (n, s1)))))"

section \<open>Commit\<close>

partial_function (option) nearest_from :: "state \<Rightarrow> fid option \<Rightarrow> did option option" where
  "nearest_from s f =
     (case f of
        None \<Rightarrow> Some None
      | Some a \<Rightarrow>
          (case fdom (fibers s a) of
             Some d \<Rightarrow> Some (Some d)
           | None \<Rightarrow> nearest_from s (parent (fibers s a))))"

declare nearest_from.simps [code]

definition nearestDom :: "state \<Rightarrow> fid \<Rightarrow> did option option" where
  "nearestDom s f = nearest_from s (parent (fibers s f))"

definition flushFiberEffects :: "fid \<Rightarrow> state \<Rightarrow> state" where
  "flushFiberEffects f s =
     (case pendingFx (fibers s f) of
        None \<Rightarrow> s
      | Some q \<Rightarrow>
          set_fiber f (\<lambda>x. x\<lparr>pendingFx := None\<rparr>) (s\<lparr>pendingEffects := pendingEffects s @ q\<rparr>))"

partial_function (option) removeFiberDom ::
  "fid option \<Rightarrow> did option \<Rightarrow> state \<Rightarrow> (error + state) option" where
  "removeFiberDom f parentDom s =
     (case f of
        None \<Rightarrow> Some (Inr s)
      | Some a \<Rightarrow>
          (case fdom (fibers s a) of
             Some d \<Rightarrow>
               (case parentDom of
                  None \<Rightarrow> Some (Inr s)
                | Some p \<Rightarrow> Some (removeChild p d s))
           | None \<Rightarrow> removeFiberDom (child (fibers s a)) parentDom s))"

declare removeFiberDom.simps [code]

text \<open>
  The inner loop of \<^verbatim>\<open>cleanupEffectTree\<close> over one fiber's hooks: every hook object with a
  cleanup function has it called.
\<close>

fun run_cleanups :: "hid option list \<Rightarrow> state \<Rightarrow> state" where
  "run_cleanups [] s = s"
| "run_cleanups (None # hs) s = run_cleanups hs s"
| "run_cleanups (Some h # hs) s =
     (case hook_cleanup (hookobjs s h) of
        None \<Rightarrow> run_cleanups hs s
      | Some c \<Rightarrow> run_cleanups hs (emit (CallCleanup c) s))"

partial_function (option) cleanupEffectTree :: "fid option \<Rightarrow> state \<Rightarrow> state option" where
  "cleanupEffectTree f s =
     (case f of
        None \<Rightarrow> Some s
      | Some a \<Rightarrow> cleanupEffectTree (child (fibers s a)) (run_cleanups (hooks (fibers s a)) s))"

declare cleanupEffectTree.simps [code]

definition commitDeletion :: "fid \<Rightarrow> did option \<Rightarrow> state \<Rightarrow> (error + state) option" where
  "commitDeletion f parentDom s =
     (case removeFiberDom (Some f) parentDom s of
        None \<Rightarrow> None
      | Some (Inl e) \<Rightarrow> Some (Inl e)
      | Some (Inr s1) \<Rightarrow> map_option Inr (cleanupEffectTree (Some f) s1))"

text \<open>
  One turn of the loop of \<^verbatim>\<open>commitWork\<close> for the popped frame \<open>(f, parentDom)\<close>: the state
  after it and the frames it pushes, the one to be popped next first. (Frames are only made
  for fibers that exist, so the test \<^verbatim>\<open>if (!fiber) continue\<close> never fires.)
\<close>

definition commit_frame ::
  "fid \<Rightarrow> did option \<Rightarrow> state \<Rightarrow> (error + ((fid \<times> did option) list \<times> state)) option" where
  "commit_frame f parentDom s =
     (let fb = fibers s f in
      case (if effectTag fb = Some PLACEMENT \<and> fdom fb \<noteq> None \<and> parentDom \<noteq> None
            then Some (Inr (True, appendChild (the parentDom) (the (fdom fb)) s))
            else if effectTag fb = Some UPDATE \<and> fdom fb \<noteq> None
            then (case alternate fb of
                    None \<Rightarrow> Some (Inl TypeError)
                  | Some a \<Rightarrow>
                      (case patchDom (props (fibers s a)) (props fb) (doms s (the (fdom fb))) of
                         Inl e \<Rightarrow> Some (Inl e)
                       | Inr n \<Rightarrow>
                           Some (Inr (True,
                             wire_ref (props fb) (the (fdom fb))
                               (emit (PatchNode (the (fdom fb)))
                                  (s\<lparr>doms := (doms s)(the (fdom fb) := n)\<rparr>))))))
            else if effectTag fb = Some DELETION
            then (case commitDeletion f parentDom s of
                    None \<Rightarrow> None
                  | Some (Inl e) \<Rightarrow> Some (Inl e)
                  | Some (Inr s1) \<Rightarrow> Some (Inr (False, s1)))
            else Some (Inr (True, s))) of
        None \<Rightarrow> None
      | Some (Inl e) \<Rightarrow> Some (Inl e)
      | Some (Inr (descend, s1)) \<Rightarrow>
          (let s2 = flushFiberEffects f s1 in
           if descend
           then Some (Inr
                  ((case child fb of
                      None \<Rightarrow> []
                    | Some c \<Rightarrow> [(c, (case fdom fb of None \<Rightarrow> parentDom | Some d \<Rightarrow> Some d))])
                   @ (case sibling fb of None \<Rightarrow> [] | Some sb \<Rightarrow> [(sb, parentDom)]),
                   s2))
           else Some (Inr ([], s2))))"

partial_function (option) commit_loop ::
  "(fid \<times> did option) list \<Rightarrow> state \<Rightarrow> (error + state) option" where
  "commit_loop stack s =
     (case stack of
        [] \<Rightarrow> Some (Inr s)
      | fr # rest \<Rightarrow>
          (case commit_frame (fst fr) (snd fr) s of
             None \<Rightarrow> None
           | Some (Inl e) \<Rightarrow> Some (Inl e)
           | Some (Inr (pushed, s1)) \<Rightarrow> commit_loop (pushed @ rest) s1))"

declare commit_loop.simps [code]

definition commitWork :: "fid \<Rightarrow> did option \<Rightarrow> state \<Rightarrow> (error + state) option" where
  "commitWork startFiber startParentDom s = commit_loop [(startFiber, startParentDom)] s"

text \<open>\<^verbatim>\<open>deletions.forEach(function (f) { commitWork(f, nearestDom(f)); })\<close>.\<close>

fun commit_deletions :: "fid list \<Rightarrow> state \<Rightarrow> (error + state) option" where
  "commit_deletions [] s = Some (Inr s)"
| "commit_deletions (f # fs) s =
     (case nearestDom s f of
        None \<Rightarrow> None
      | Some p \<Rightarrow>
          (case commitWork f p s of
             None \<Rightarrow> None
           | Some (Inl e) \<Rightarrow> Some (Inl e)
           | Some (Inr s1) \<Rightarrow> commit_deletions fs s1))"

text \<open>
  The table of effect functions: the cleanup function an effect returns when called, if it
  returns a function. The calls themselves are entered in the log.
\<close>

type_synonym effects = "nat \<Rightarrow> nat option"

text \<open>\<^verbatim>\<open>item.hook.cleanup = ...\<close>.\<close>

fun set_cleanup :: "nat option \<Rightarrow> hook \<Rightarrow> hook" where
  "set_cleanup c (EffectHook d _) = EffectHook d c"
| "set_cleanup c h = h"

fun run_effects :: "effects \<Rightarrow> peffect list \<Rightarrow> state \<Rightarrow> state" where
  "run_effects \<E> [] s = s"
| "run_effects \<E> (item # items) s =
     (let s1 = (case oldCleanup item of None \<Rightarrow> s | Some c \<Rightarrow> emit (CallCleanup c) s);
          s2 = emit (CallEffect (effect item)) s1
      in run_effects \<E> items
           (s2\<lparr>hookobjs := (hookobjs s2)(hook item := set_cleanup (\<E> (effect item)) (hookobjs s2 (hook item)))\<rparr>))"

definition commitRoot :: "effects \<Rightarrow> state \<Rightarrow> (error + state) option" where
  "commitRoot \<E> s =
     (case wipRoot s of
        None \<Rightarrow> Some (Inl TypeError)
      | Some w \<Rightarrow>
          (case commit_deletions (deletions s) s of
             None \<Rightarrow> None
           | Some (Inl e) \<Rightarrow> Some (Inl e)
           | Some (Inr s1) \<Rightarrow>
               (case (case child (fibers s1 w) of
                        None \<Rightarrow> Some (Inr s1)
                      | Some c \<Rightarrow> commitWork c (fdom (fibers s1 w)) s1) of
                  None \<Rightarrow> None
                | Some (Inl e) \<Rightarrow> Some (Inl e)
                | Some (Inr s2) \<Rightarrow>
                    (let s3 = emit (RootCommitted w) (s2\<lparr>curRoot := Some w, wipRoot := None\<rparr>)
                     in Some (Inr (run_effects \<E> (pendingEffects s3) (s3\<lparr>pendingEffects := []\<rparr>)))))))"

section \<open>The work loop\<close>

text \<open>
  The loop of \<^verbatim>\<open>workLoop\<close>. The deadline is the number \<open>budget\<close> of tests
  \<^verbatim>\<open>deadline.timeRemaining() > 1\<close> that still succeed.
\<close>

fun work_units :: "components \<Rightarrow> nat \<Rightarrow> state \<Rightarrow> (error + state) option" where
  "work_units \<Gamma> budget s =
     (if budget = 0 then Some (Inr s)
      else (case nextUnit s of
              None \<Rightarrow> Some (Inr s)
            | Some f \<Rightarrow>
                (case performUnit \<Gamma> f s of
                   None \<Rightarrow> None
                 | Some (Inl e) \<Rightarrow> Some (Inl e)
                 | Some (Inr (n, s1)) \<Rightarrow> work_units \<Gamma> (budget - 1) (s1\<lparr>nextUnit := n\<rparr>))))"

definition workLoop :: "components \<Rightarrow> effects \<Rightarrow> nat \<Rightarrow> state \<Rightarrow> (error + state) option" where
  "workLoop \<Gamma> \<E> budget s =
     (case work_units \<Gamma> budget (s\<lparr>scheduled := False\<rparr>) of
        None \<Rightarrow> None
      | Some (Inl e) \<Rightarrow> Some (Inl e)
      | Some (Inr s1) \<Rightarrow>
          (case (if nextUnit s1 = None \<and> wipRoot s1 \<noteq> None then commitRoot \<E> s1
                 else Some (Inr s1)) of
             None \<Rightarrow> None
           | Some (Inl e) \<Rightarrow> Some (Inl e)
           | Some (Inr s2) \<Rightarrow> Some (Inr (if nextUnit s2 \<noteq> None then scheduleWork s2 else s2))))"

text \<open>The host runs one of the callbacks it was handed, if there is one.\<close>

definition idle_callback ::
  "components \<Rightarrow> effects \<Rightarrow> nat \<Rightarrow> state \<Rightarrow> (error + state) option" where
  "idle_callback \<Gamma> \<E> budget s =
     (if ric_pending s = 0 then Some (Inr s)
      else workLoop \<Gamma> \<E> budget (s\<lparr>ric_pending := ric_pending s - 1\<rparr>))"

text \<open>The state of a freshly loaded module, with one output node: the container.\<close>

definition init_state :: state where
  "init_state =
     \<lparr>nextUnit = None, wipRoot = None, curRoot = None, deletions = [], wipFiber = None,
      hookIdx = 0, pendingEffects = [], scheduled = False, ric_pending = 0,
      fibers = (\<lambda>_. root_fiber None None None), nfib = 0,
      doms = (\<lambda>_. fresh_node None), ndom = 1,
      cells = (\<lambda>_. \<lparr>queue = [], dispatch = False\<rparr>), ncell = 0,
      hookobjs = (\<lambda>_. RefHook Undefined), nhook = 0,
      refcur = (\<lambda>_. None), log = [], natives = []\<rparr>"

section \<open>Specification-side notions and example programs\<close>

text \<open>
  The dependency comparison as the specification words it: the effect is dirty when there
  is no previous render of the cell, or the dependency list is absent, or some element of
  the new list differs from the corresponding previous element.
\<close>

definition deps_differ :: "hook option \<Rightarrow> deps \<Rightarrow> bool" where
  "deps_differ oldHook d =
     (oldHook = None \<or> d = NoDeps \<or> d = NullDeps \<or>
      (\<exists>oh ds i. oldHook = Some oh \<and> d = Deps ds \<and> i < length ds \<and>
         \<not> strict_eq (ds ! i) (old_dep (hook_deps oh) i)))"

text \<open>The state a run ended in; a run that threw or did not end gives the initial state.\<close>

definition final :: "(error + state) option \<Rightarrow> state" where
  "final m = (case m of Some (Inr s) \<Rightarrow> s | _ \<Rightarrow> init_state)"

text \<open>No effect returns a cleanup, but effect 7 returns the function 70.\<close>

definition demo_effects :: effects where
  "demo_effects = (\<lambda>_. None)(7 := Some 70)"

text \<open>\<^verbatim>\<open>x => x + 1\<close>.\<close>

fun inc :: "jsval \<Rightarrow> jsval" where
  "inc (Num n) = Num (round_double (n + 1))"
| "inc v = NaN"

text \<open>
  Component 0 keeps a counter with the state hook and shows it; component 1 runs effect 7
  with the dependency list \<^verbatim>\<open>[1]\<close> and memoises with the same list; component 2 returns a
  text that is not wrapped in a description; component 3 hands the state hook the function 5,
  whose call returns the function 6, whose call returns 7.
\<close>

definition demo_components :: components where
  "demo_components =
     (\<lambda>_ _. Return (Prim Null))
       (0 := (\<lambda>_. UseState (IVal (Num 0)) (\<lambda>v c. Return (El (Host ''span'') [(''title'', v)] []))),
        1 := (\<lambda>_. UseEffect 7 (Deps [Num 1])
                    (UseMemo 8 (Str ''m'') (Deps [Num 1])
                       (\<lambda>v. Return (El (Host ''em'') [(''title'', v)] [])))),
        2 := (\<lambda>_. Return (Prim (Str ''hi''))),
        3 := (\<lambda>_. UseState (IFun 5 (IFun 6 (IVal (Num 7))))
                    (\<lambda>v c. Return (El (Host ''span'') [(''title'', v)] []))))"

definition mount :: "desc \<Rightarrow> state \<Rightarrow> state" where
  "mount d s = final (idle_callback demo_components demo_effects 100 (render d 0 s))"

text \<open>
  The counter component is mounted, its dispatch handle is called three times with
  \<^verbatim>\<open>x => x + 1\<close>, and the next render has reached the component.
\<close>

definition counter_clicked :: state where
  "counter_clicked =
     dispatch_handle 0 (Upd inc) (dispatch_handle 0 (Upd inc) (dispatch_handle 0 (Upd inc)
       (mount (El (Comp 0) [] []) init_state)))"

definition counter_rendering :: state where
  "counter_rendering =
     begin_render 6 (final (idle_callback demo_components demo_effects 1 counter_clicked))"

text \<open>
  The counter is mounted and clicked once. The pass that follows has rendered the component
  when its time is up; then the counter is clicked again, and the work runs to its end.
\<close>

definition counter_restarted :: state where
  "counter_restarted =
     final (idle_callback demo_components demo_effects 100
       (dispatch_handle 0 (Upd inc)
          (final (idle_callback demo_components demo_effects 2
             (dispatch_handle 0 (Upd inc) (mount (El (Comp 0) [] []) init_state))))))"

text \<open>
  Component 1 is mounted, the same description is rendered again, and the second render has
  reached the component; then its effect hook has been called, and the memo hook is next.
\<close>

definition effect_rendering :: state where
  "effect_rendering =
     begin_render 4 (final (idle_callback demo_components demo_effects 1
       (render (El (Comp 1) [] []) 0 (mount (El (Comp 1) [] []) init_state))))"

definition memo_rendering :: state where
  "memo_rendering =
     (case useEffect 7 (Deps [Num 1]) effect_rendering of Inr s \<Rightarrow> s | Inl e \<Rightarrow> init_state)"

text \<open>The first render of the counter has run the component and is not committed yet.\<close>

definition counter_in_flight :: state where
  "counter_in_flight =
     final (idle_callback demo_components demo_effects 2 (render (El (Comp 0) [] []) 0 init_state))"

text \<open>
  The handle of the counter is called with \<^verbatim>\<open>x => x + 1\<close> while that first render is in
  flight. Either the pass goes on to its commit and the counter is rendered once more, or
  the counter is first rendered anew, which replaces the pass in flight.
\<close>

definition early_click_kept :: state where
  "early_click_kept =
     mount (El (Comp 0) [] [])
       (final (idle_callback demo_components demo_effects 100
          (dispatch_handle 0 (Upd inc) counter_in_flight)))"

definition early_click_replaced :: state where
  "early_click_replaced =
     mount (El (Comp 0) [] [])
       (mount (El (Comp 0) [] []) (dispatch_handle 0 (Upd inc) counter_in_flight))"

text \<open>
  The scheduler's invariant: the flag \<^verbatim>\<open>scheduled\<close> is set exactly when one callback is
  pending, and there is never more than one.
\<close>

definition sched_inv :: "state \<Rightarrow> bool" where
  "sched_inv s = (ric_pending s = (if scheduled s then 1 else 0))"

text \<open>Two states with the same scheduler flag and the same pending callbacks.\<close>

definition quiet :: "state \<Rightarrow> state \<Rightarrow> bool" where
  "quiet s s' = (scheduled s' = scheduled s \<and> ric_pending s' = ric_pending s)"

text \<open>
  The states the module can be in between two calls from outside: user code mounts or
  dispatches, and the host fires a pending callback with some time budget.
\<close>

inductive reachable :: "components \<Rightarrow> effects \<Rightarrow> state \<Rightarrow> bool" for \<Gamma> :: components and \<E> :: effects where
  start: "reachable \<Gamma> \<E> init_state"
| rendered: "reachable \<Gamma> \<E> s \<Longrightarrow> reachable \<Gamma> \<E> (render el c s)"
| dispatched: "reachable \<Gamma> \<E> s \<Longrightarrow> reachable \<Gamma> \<E> (dispatch_handle cl a s)"
| fired: "reachable \<Gamma> \<E> s \<Longrightarrow> idle_callback \<Gamma> \<E> b s = Some (Inr s') \<Longrightarrow> reachable \<Gamma> \<E> s'"

text \<open>
  A \<^verbatim>\<open>div\<close> with a paragraph and component 1 as children, in either order, and what replaces
  it on the next render.
\<close>

definition panel_effect_last :: desc where
  "panel_effect_last = El (Host ''div'') [] [El (Host ''p'') [] [], El (Comp 1) [] []]"

definition panel_effect_first :: desc where
  "panel_effect_first = El (Host ''div'') [] [El (Comp 1) [] [], El (Host ''p'') [] []]"

definition replacement :: desc where
  "replacement = El (Host ''span'') [] []"

text \<open>
  The sibling chain that starts at \<open>x\<close> is the list of fibers \<open>fs\<close>, and ends.
\<close>

primrec chain :: "state \<Rightarrow> fid option \<Rightarrow> fid list \<Rightarrow> bool" where
  "chain s x [] = (x = None)"
| "chain s x (f # fs) = (x = Some f \<and> chain s (sibling (fibers s f)) fs)"

text \<open>
  The partition of the previous children: the keyed ones, each under its key as a string,
  and the unkeyed ones, both in chain order.
\<close>

definition keyed_olds :: "state \<Rightarrow> fid list \<Rightarrow> (string \<times> fid) list" where
  "keyed_olds s fs =
     map (\<lambda>f. (String_js (fiber_key (fibers s f)), f))
       (filter (\<lambda>f. \<not> nullish (fiber_key (fibers s f))) fs)"

definition positional_olds :: "state \<Rightarrow> fid list \<Rightarrow> fid list" where
  "positional_olds s fs = filter (\<lambda>f. nullish (fiber_key (fibers s f))) fs"

text \<open>
  The lookup among own properties and positions only, and the old fiber it finds for each
  description of a list, in order, with the key map and position index left at the end.
\<close>

definition plain_find ::
  "desc \<Rightarrow> (string \<times> fid) list option \<Rightarrow> fid list \<Rightarrow> nat
    \<Rightarrow> fid option \<times> (string \<times> fid) list option \<times> nat" where
  "plain_find el keyMap byPos posIdx =
     (if \<not> nullish (el_key el) then
        (case keyMap of
           None \<Rightarrow> (None, keyMap, posIdx)
         | Some km \<Rightarrow>
             (case map_of km (String_js (el_key el)) of
                None \<Rightarrow> (None, keyMap, posIdx)
              | Some old \<Rightarrow> (Some old, Some (AList.delete (String_js (el_key el)) km), posIdx)))
      else ((if posIdx < length byPos then Some (byPos ! posIdx) else None), keyMap, Suc posIdx))"

fun match_all ::
  "(string \<times> fid) list option \<Rightarrow> fid list \<Rightarrow> nat \<Rightarrow> desc list
    \<Rightarrow> fid option list \<times> (string \<times> fid) list option \<times> nat" where
  "match_all keyMap byPos posIdx [] = ([], keyMap, posIdx)"
| "match_all keyMap byPos posIdx (el # els) =
     (case plain_find el keyMap byPos posIdx of
        (old, keyMap1, posIdx1) \<Rightarrow>
          (case match_all keyMap1 byPos posIdx1 els of
             (olds, keyMap2, posIdx2) \<Rightarrow> (old # olds, keyMap2, posIdx2)))"

text \<open>The old fibers that were found for a description but do not qualify.\<close>

fun mismatched :: "state \<Rightarrow> desc list \<Rightarrow> fid option list \<Rightarrow> fid list" where
  "mismatched s (el # els) (Some ol # olds) =
     (if sameType s (Some ol) el then mismatched s els olds else ol # mismatched s els olds)"
| "mismatched s (el # els) (None # olds) = mismatched s els olds"
| "mismatched s _ _ = []"

text \<open>The old fibers left in the key map at the end.\<close>

definition left_keyed :: "(string \<times> fid) list option \<Rightarrow> fid list" where
  "left_keyed keyMap = (case keyMap of None \<Rightarrow> [] | Some km \<Rightarrow> map snd km)"

text \<open>A \<^verbatim>\<open>ul\<close> and keyed \<^verbatim>\<open>li\<close> children.\<close>

definition li :: "string \<Rightarrow> desc" where
  "li k = El (Host ''li'') [(''key'', Str k)] []"

definition ul :: "desc list \<Rightarrow> desc" where
  "ul cs = El (Host ''ul'') [] cs"

text \<open>The fiber object made for a description, given the old fiber found for it.\<close>

definition made_fiber :: "state \<Rightarrow> fid \<Rightarrow> desc \<Rightarrow> fid option \<Rightarrow> fiber" where
  "made_fiber s p el old =
     (case (old, sameType s old el) of
        (Some ol, True) \<Rightarrow> update_fiber s p ol el
      | _ \<Rightarrow> placement_fiber s p (case el_type el of Inl e \<Rightarrow> None | Inr t \<Rightarrow> t) el)"

text \<open>
  What a run of the main loop over \<open>els\<close> from index \<open>i\<close> leaves behind, when \<open>olds\<close> are
  the old fibers found: the new fibers follow the existing ones in the store and are linked
  in order, the parent's \<open>child\<close> or the previous fiber's \<open>sibling\<close> points to the first of
  them, the old fibers that do not qualify are marked and listed, and nothing else changes.
\<close>

definition loop_result ::
  "state \<Rightarrow> fid \<Rightarrow> nat \<Rightarrow> fid option \<Rightarrow> desc list \<Rightarrow> fid option list \<Rightarrow> state \<Rightarrow> bool" where
  "loop_result s p i prev els olds s' =
     (nfib s' = nfib s + length els
      \<and> deletions s' = deletions s @ mismatched s els olds
      \<and> s'\<lparr>fibers := fibers s, nfib := nfib s, deletions := deletions s\<rparr> = s
      \<and> (\<forall>x. x < nfib s \<longrightarrow>
            fibers s' x = (fibers s x)
              \<lparr>child := (if x = p \<and> i = 0 \<and> els \<noteq> [] then Some (nfib s) else child (fibers s x)),
               sibling := (if prev = Some x \<and> i \<noteq> 0 \<and> els \<noteq> [] then Some (nfib s)
                           else sibling (fibers s x)),
               effectTag := (if x \<in> set (mismatched s els olds) then Some DELETION
                             else effectTag (fibers s x))\<rparr>)
      \<and> (\<forall>j. j < length els \<longrightarrow>
            fibers s' (nfib s + j) = (made_fiber s p (els ! j) (olds ! j))
              \<lparr>sibling := (if Suc j < length els then Some (nfib s + Suc j) else None)\<rparr>))"

text \<open>
  Two list items are mounted and the next render, with new children for the list, has
  worked the root: fiber 5 is the list's new fiber, and the old items are the fibers 2
  and 3.
\<close>

definition rerender_started :: "desc list \<Rightarrow> desc list \<Rightarrow> state" where
  "rerender_started before after =
     final (idle_callback demo_components demo_effects 1
       (render (ul after) 0 (mount (ul before) init_state)))"

subsection \<open>The order of a commit\<close>

text \<open>The first-child chain below a fiber, the fiber itself first.\<close>

primrec descent :: "state \<Rightarrow> fid option \<Rightarrow> fid list \<Rightarrow> bool" where
  "descent s f [] = (f = None)"
| "descent s f (x # xs) = (f = Some x \<and> descent s (child (fibers s x)) xs)"

text \<open>The cleanup calls due for the hooks of one fiber.\<close>

fun cleanup_events :: "(hid \<Rightarrow> hook) \<Rightarrow> hid option list \<Rightarrow> event list" where
  "cleanup_events H [] = []"
| "cleanup_events H (None # hs) = cleanup_events H hs"
| "cleanup_events H (Some h # hs) =
     (case hook_cleanup (H h) of None \<Rightarrow> [] | Some c \<Rightarrow> [CallCleanup c]) @ cleanup_events H hs"

definition first_node :: "state \<Rightarrow> fid list \<Rightarrow> did option" where
  "first_node s xs =
     (case filter (\<lambda>x. fdom (fibers s x) \<noteq> None) xs of
        [] \<Rightarrow> None
      | x # _ \<Rightarrow> fdom (fibers s x))"

text \<open>
  What the removal of a fiber with first-child chain \<open>xs\<close> asks of the host and of user code,
  when \<open>p\<close> is the output parent handed to it.
\<close>

definition deletion_events :: "state \<Rightarrow> did option \<Rightarrow> fid list \<Rightarrow> event list" where
  "deletion_events s p xs =
     (case (p, first_node s xs) of
        (Some pd, Some d) \<Rightarrow> [RemoveChild pd d]
      | _ \<Rightarrow> [])
     @ concat (map (\<lambda>x. cleanup_events (hookobjs s) (hooks (fibers s x))) xs)"

text \<open>What a Placement or an Update asks of the host, under the output parent \<open>p\<close>.\<close>

definition visit_events :: "state \<Rightarrow> fid \<Rightarrow> did option \<Rightarrow> event list" where
  "visit_events s f p =
     (case effectTag (fibers s f) of
        Some PLACEMENT \<Rightarrow>
          (case (fdom (fibers s f), p) of
             (Some d, Some pd) \<Rightarrow> [AppendChild pd d]
           | _ \<Rightarrow> [])
      | Some UPDATE \<Rightarrow> (case fdom (fibers s f) of Some d \<Rightarrow> [PatchNode d] | None \<Rightarrow> [])
      | _ \<Rightarrow> [])"

text \<open>
  The pre-order walk of a fiber tree as a recursion over the tree: the fiber, then the
  subtree of its child under the fiber's own node (under \<open>p\<close> still, when the fiber has no
  node), then the subtree of its sibling under \<open>p\<close>. The walk gives the events in order and
  the fibers visited in order. A fiber tagged Deletion is removed and ends its branch.
\<close>

inductive walk :: "state \<Rightarrow> fid option \<Rightarrow> did option \<Rightarrow> event list \<Rightarrow> fid list \<Rightarrow> bool"
  for s :: state where
  walk_none: "walk s None p [] []"
| walk_node: "effectTag (fibers s f) \<noteq> Some DELETION \<Longrightarrow>
     walk s (child (fibers s f)) (case fdom (fibers s f) of None \<Rightarrow> p | Some d \<Rightarrow> Some d) e1 v1 \<Longrightarrow>
     walk s (sibling (fibers s f)) p e2 v2 \<Longrightarrow>
     walk s (Some f) p (visit_events s f p @ e1 @ e2) (f # v1 @ v2)"
| walk_deleted: "effectTag (fibers s f) = Some DELETION \<Longrightarrow> descent s (Some f) xs \<Longrightarrow>
     walk s (Some f) p (deletion_events s p xs) [f]"

text \<open>The walks of the frames of a stack, the top frame first.\<close>

inductive walks :: "state \<Rightarrow> (fid \<times> did option) list \<Rightarrow> event list \<Rightarrow> fid list \<Rightarrow> bool"
  for s :: state where
  walks_nil: "walks s [] [] []"
| walks_cons: "walk s (Some f) p e1 v1 \<Longrightarrow> walks s rest e2 v2 \<Longrightarrow>
     walks s ((f, p) # rest) (e1 @ e2) (v1 @ v2)"

text \<open>The effects a fiber has queued, and the calls their run makes.\<close>

definition queued :: "state \<Rightarrow> fid \<Rightarrow> peffect list" where
  "queued s f = (case pendingFx (fibers s f) of None \<Rightarrow> [] | Some q \<Rightarrow> q)"





section \<open>Evaluation of the example programs\<close>

declare work_units.simps [simp del]

lemmas run_defs =
  init_state_def render_def new_fiber_def root_fiber_def scheduleWork_def scheduleUpdate_def
  dispatch_handle_def idle_callback_def workLoop_def work_units.simps performUnit_def
  updateHostComponent_def updateFunctionComponent_def begin_render_def
  useState_def useReducer_def useEffect_def useMemo_def push_hook_def oldHook_of_def
  js_get_def js_set_def depsChanged_def
  createDom_def patchDom_def fresh_node_def tag_of_def wire_ref_def prop_get_def emit_def
  set_fiber_def set_dom_def
  reconcileChildren_def reconcile_one_def sameType_def update_fiber_def placement_fiber_def
  link_fiber_def scan_old.simps find_old_def fiber_key_def nullish_def mark_deletion_def
  next_up.simps commitRoot_def commitWork_def commit_loop.simps commit_frame_def
  flushFiberEffects_def appendChild_def removeChild_def nearestDom_def nearest_from.simps
  commitDeletion_def removeFiberDom.simps cleanupEffectTree.simps
  isRealProp_def strict_eq_def has_key_def dropped_def Let_def
  final_def demo_effects_def demo_components_def mount_def
  init_value_def round_double_def native_object_def no_fiber_def proto_members_def
  enum_order_def array_index_def is_digit_def unclaimed_def

section \<open>Hooks\<close>

lemma js_get_js_set: "js_get (js_set xs i v) i = Some v"
  by (simp add: js_get_def js_set_def nth_append)

lemma push_hook_facts:
  "push_hook w h s = (i, s') \<Longrightarrow>
     i = nhook s \<and> hookobjs s' (nhook s) = h \<and> cells s' = cells s
     \<and> js_get (hooks (fibers s' w)) (hookIdx s) = Some (nhook s)
     \<and> hookIdx s' = Suc (hookIdx s)"
  by (auto simp: push_hook_def set_fiber_def Let_def js_get_js_set)

lemma useReducer_first:
  assumes "wipFiber s = Some w" and n: "oldHook_of s w = None"
  shows "\<exists>s'. useReducer r ini s = Inr ((init_value ini, ncell s), s')
                 \<and> queue (cells s' (ncell s)) = []
                 \<and> hookobjs s' (nhook s) = StateHook (init_value ini) (ncell s)
                 \<and> js_get (hooks (fibers s' w)) (hookIdx s) = Some (nhook s)"
proof -
  let ?s1 = "s\<lparr>cells := (cells s)(ncell s := \<lparr>queue = [], dispatch = True\<rparr>), ncell := Suc (ncell s)\<rparr>"
  obtain h s2 where p: "push_hook w (StateHook (init_value ini) (ncell s)) ?s1 = (h, s2)"
    by (cases "push_hook w (StateHook (init_value ini) (ncell s)) ?s1") auto
  from push_hook_facts[OF p] assms p show ?thesis
    by (auto simp: useReducer_def Let_def)
qed

lemma useReducer_again:
  assumes "wipFiber s = Some w" and o: "oldHook_of s w = Some oh" "hookobjs s oh = StateHook st0 c"
  shows "\<exists>s'. useReducer r ini s = Inr ((foldl r st0 (queue (cells s c)), c), s')
                 \<and> queue (cells s' c) = []
                 \<and> hookobjs s' (nhook s) = StateHook (foldl r st0 (queue (cells s c))) c
                 \<and> js_get (hooks (fibers s' w)) (hookIdx s) = Some (nhook s)"
proof -
  let ?st = "foldl r st0 (queue (cells s c))"
  let ?s1 = "s\<lparr>cells := (cells s)(c := \<lparr>queue = [], dispatch = True\<rparr>)\<rparr>"
  obtain h s2 where p: "push_hook w (StateHook ?st c) ?s1 = (h, s2)"
    by (cases "push_hook w (StateHook ?st c) ?s1") auto
  from push_hook_facts[OF p] assms p show ?thesis
    by (auto simp: useReducer_def Let_def)
qed

text \<open>
  Claim C3 fails on the code. A render folds the queue of the cell into the state of the
  hook object of the committed tree, and empties the queue. When three actions are queued
  before the next render, that render is handed 3. But when a dispatch replaces a pass
  that has rendered the component and is not committed yet, the new pass starts from the
  committed state again, and the action the replaced pass took from the queue is applied
  to nothing that is kept: of two increments from 0, one is shown. (A function handed to
  the state hook as the initial state is called, and what it returns is called once more if
  it is a function: component 3 starts at 7.)
\<close>

theorem replaced_pass_drops_drained_actions:
  "(\<exists>s. final (idle_callback demo_components demo_effects 100 counter_clicked) = s
        \<and> queue (cells s 0) = [] \<and> propvals (doms s 1) = [(''title'', Num 3)])
   \<and> (\<exists>s. counter_restarted = s \<and> curRoot s = Some 6 \<and> nextUnit s = None
        \<and> queue (cells s 0) = [] \<and> propvals (doms s 1) = [(''title'', Num 1)])
   \<and> (\<exists>s. mount (El (Comp 3) [] []) init_state = s
        \<and> propvals (doms s 1) = [(''title'', Num 7)])"
proof (intro conjI)
  show "\<exists>s. final (idle_callback demo_components demo_effects 100 counter_clicked) = s
        \<and> queue (cells s 0) = [] \<and> propvals (doms s 1) = [(''title'', Num 3)]"
    by (simp add: counter_clicked_def run_defs)
  show "\<exists>s. counter_restarted = s \<and> curRoot s = Some 6 \<and> nextUnit s = None
        \<and> queue (cells s 0) = [] \<and> propvals (doms s 1) = [(''title'', Num 1)]"
    by (simp add: counter_restarted_def run_defs)
  show "\<exists>s. mount (El (Comp 3) [] []) init_state = s
        \<and> propvals (doms s 1) = [(''title'', Num 7)]"
    by (simp add: run_defs)
qed

lemma some_differs_iff:
  "some_differs ds i old = (\<exists>j<length ds. \<not> strict_eq (ds ! j) (old_dep old (i + j)))"
proof (induction ds arbitrary: i)
  case Nil
  show ?case by simp
next
  case (Cons d ds)
  show ?case
  proof (cases "strict_eq d (old_dep old i)")
    case False
    then have "\<not> strict_eq ((d # ds) ! 0) (old_dep old (i + 0))" by simp
    then have "\<exists>j<length (d # ds). \<not> strict_eq ((d # ds) ! j) (old_dep old (i + j))"
      by (intro exI[of _ 0]) simp
    with False show ?thesis by simp
  next
    case True
    have "(\<exists>j<length (d # ds). \<not> strict_eq ((d # ds) ! j) (old_dep old (i + j)))
        = (\<exists>j<length ds. \<not> strict_eq (ds ! j) (old_dep old (Suc i + j)))"
    proof
      assume "\<exists>j<length (d # ds). \<not> strict_eq ((d # ds) ! j) (old_dep old (i + j))"
      then obtain j where j: "j < length (d # ds)" "\<not> strict_eq ((d # ds) ! j) (old_dep old (i + j))"
        by blast
      with True obtain k where "j = Suc k" by (cases j) auto
      with j show "\<exists>j<length ds. \<not> strict_eq (ds ! j) (old_dep old (Suc i + j))"
        by (intro exI[of _ k]) simp
    next
      assume "\<exists>j<length ds. \<not> strict_eq (ds ! j) (old_dep old (Suc i + j))"
      then obtain k where "k < length ds" "\<not> strict_eq (ds ! k) (old_dep old (Suc i + k))" by blast
      then show "\<exists>j<length (d # ds). \<not> strict_eq ((d # ds) ! j) (old_dep old (i + j))"
        by (intro exI[of _ "Suc k"]) simp
    qed
    with True Cons.IH[of "Suc i"] show ?thesis by simp
  qed
qed

lemma depsChanged_iff: "depsChanged oldHook d = deps_differ oldHook d"
  by (cases oldHook; cases d) (auto simp: depsChanged_def deps_differ_def some_differs_iff)

text \<open>
  Claim C4. An effect hook call enqueues the effect on the rendering fiber, together with
  the previous cleanup handle, exactly when there is no previous hook object, or the
  dependency list is absent, or some element of the new list differs (by \<^verbatim>\<open>!==\<close>) from the
  previous element at its index; otherwise the fiber's pending list is left as it was. No
  effect runs during the call. A memo hook call with the same comparison calls the factory
  and returns its result exactly when the dependencies changed; otherwise it calls nothing
  and returns the value the previous cell holds. Either call stores its cell, with the new
  dependency list, at the hook index of the fiber and moves the index on. (A previous
  element that does not exist reads as \<^verbatim>\<open>undefined\<close>, or as \<^verbatim>\<open>null\<close> when the previous list
  was \<^verbatim>\<open>null\<close>.)
\<close>

theorem effect_and_memo_rerun_on_changed_deps:
  assumes "wipFiber s = Some w"
  shows "(\<exists>s'. useEffect eff d s = Inr s'
            \<and> pendingFx (fibers s' w) =
                (if deps_differ (map_option (hookobjs s) (oldHook_of s w)) d
                 then Some ((case pendingFx (fibers s w) of None \<Rightarrow> [] | Some q \<Rightarrow> q)
                        @ [\<lparr>effect = eff,
                            oldCleanup = (case oldHook_of s w of None \<Rightarrow> None
                                          | Some oh \<Rightarrow> hook_cleanup (hookobjs s oh)),
                            hook = nhook s\<rparr>])
                 else pendingFx (fibers s w))
            \<and> hookobjs s' (nhook s) =
                EffectHook d (case oldHook_of s w of None \<Rightarrow> None
                              | Some oh \<Rightarrow> hook_cleanup (hookobjs s oh))
            \<and> js_get (hooks (fibers s' w)) (hookIdx s) = Some (nhook s)
            \<and> hookIdx s' = Suc (hookIdx s)
            \<and> pendingEffects s' = pendingEffects s \<and> log s' = log s)
       \<and> (\<exists>s' v. useMemo fac result d s = Inr (v, s')
            \<and> v = (if deps_differ (map_option (hookobjs s) (oldHook_of s w)) d then result
                   else (case oldHook_of s w of None \<Rightarrow> Undefined
                         | Some oh \<Rightarrow> hook_value (hookobjs s oh)))
            \<and> log s' = (if deps_differ (map_option (hookobjs s) (oldHook_of s w)) d
                         then log s @ [CallFactory fac] else log s)
            \<and> hookobjs s' (nhook s) = MemoHook v d
            \<and> js_get (hooks (fibers s' w)) (hookIdx s) = Some (nhook s)
            \<and> hookIdx s' = Suc (hookIdx s)
            \<and> pendingFx (fibers s' w) = pendingFx (fibers s w))
       \<and> (\<forall>oh v0 d0. oldHook_of s w = Some oh \<and> hookobjs s oh = MemoHook v0 d0
              \<and> \<not> deps_differ (Some (MemoHook v0 d0)) d \<longrightarrow>
            (\<exists>s'. useMemo fac result d s = Inr (v0, s') \<and> log s' = log s
                 \<and> hookobjs s' (nhook s) = MemoHook v0 d))"
proof (intro conjI allI impI)
  show "\<exists>s'. useEffect eff d s = Inr s'
            \<and> pendingFx (fibers s' w) =
                (if deps_differ (map_option (hookobjs s) (oldHook_of s w)) d
                 then Some ((case pendingFx (fibers s w) of None \<Rightarrow> [] | Some q \<Rightarrow> q)
                        @ [\<lparr>effect = eff,
                            oldCleanup = (case oldHook_of s w of None \<Rightarrow> None
                                          | Some oh \<Rightarrow> hook_cleanup (hookobjs s oh)),
                            hook = nhook s\<rparr>])
                 else pendingFx (fibers s w))
            \<and> hookobjs s' (nhook s) =
                EffectHook d (case oldHook_of s w of None \<Rightarrow> None
                              | Some oh \<Rightarrow> hook_cleanup (hookobjs s oh))
            \<and> js_get (hooks (fibers s' w)) (hookIdx s) = Some (nhook s)
            \<and> hookIdx s' = Suc (hookIdx s)
            \<and> pendingEffects s' = pendingEffects s \<and> log s' = log s"
    using assms
    by (cases "oldHook_of s w")
       (simp_all add: useEffect_def push_hook_def set_fiber_def Let_def depsChanged_iff
          js_get_js_set)
next
  show "\<exists>s' v. useMemo fac result d s = Inr (v, s')
            \<and> v = (if deps_differ (map_option (hookobjs s) (oldHook_of s w)) d then result
                   else (case oldHook_of s w of None \<Rightarrow> Undefined
                         | Some oh \<Rightarrow> hook_value (hookobjs s oh)))
            \<and> log s' = (if deps_differ (map_option (hookobjs s) (oldHook_of s w)) d
                         then log s @ [CallFactory fac] else log s)
            \<and> hookobjs s' (nhook s) = MemoHook v d
            \<and> js_get (hooks (fibers s' w)) (hookIdx s) = Some (nhook s)
            \<and> hookIdx s' = Suc (hookIdx s)
            \<and> pendingFx (fibers s' w) = pendingFx (fibers s w)"
    using assms
    by (cases "oldHook_of s w")
       (simp_all add: useMemo_def push_hook_def set_fiber_def Let_def depsChanged_iff emit_def
          js_get_js_set)
next
  fix oh v0 d0
  assume a: "oldHook_of s w = Some oh \<and> hookobjs s oh = MemoHook v0 d0
              \<and> \<not> deps_differ (Some (MemoHook v0 d0)) d"
  with assms show "\<exists>s'. useMemo fac result d s = Inr (v0, s') \<and> log s' = log s
                 \<and> hookobjs s' (nhook s) = MemoHook v0 d"
    by (simp add: useMemo_def push_hook_def set_fiber_def Let_def depsChanged_iff emit_def)
qed

text \<open>
  Component 1 is rendered a second time. Its dependency list \<^verbatim>\<open>[1]\<close> is unchanged: the effect
  is not enqueued, and the memo hook returns the value \<^verbatim>\<open>'m'\<close> of the first render, not what
  the factory would return now, without a call; each stores its cell. With the list \<^verbatim>\<open>[2]\<close>
  the effect is enqueued with the cleanup 70 of the first run, and the factory is called.
  Over the two passes the factory and the effect are called once each.
\<close>

theorem effect_and_memo_rerun_on_changed_deps_witness:
  "wipFiber effect_rendering = Some 4 \<and> wipFiber memo_rendering = Some 4
   \<and> (\<exists>s'. useEffect 7 (Deps [Num 1]) effect_rendering = Inr s' \<and> pendingFx (fibers s' 4) = None
          \<and> hookobjs s' 2 = EffectHook (Deps [Num 1]) (Some 70)
          \<and> hooks (fibers s' 4) = [Some 2])
   \<and> (\<exists>s'. useEffect 7 (Deps [Num 2]) effect_rendering = Inr s'
          \<and> pendingFx (fibers s' 4) = Some [\<lparr>effect = 7, oldCleanup = Some 70, hook = 2\<rparr>])
   \<and> (\<exists>s'. useMemo 8 (Str ''fresh'') (Deps [Num 1]) memo_rendering = Inr (Str ''m'', s')
          \<and> log s' = log memo_rendering
          \<and> hookobjs s' 3 = MemoHook (Str ''m'') (Deps [Num 1])
          \<and> hooks (fibers s' 4) = [Some 2, Some 3])
   \<and> (\<exists>s'. useMemo 8 (Str ''fresh'') (Deps [Num 2]) memo_rendering = Inr (Str ''fresh'', s')
          \<and> log s' = log memo_rendering @ [CallFactory 8]
          \<and> hookobjs s' 3 = MemoHook (Str ''fresh'') (Deps [Num 2]))
   \<and> (\<exists>s. mount (El (Comp 1) [] []) (mount (El (Comp 1) [] []) init_state) = s
          \<and> filter (\<lambda>e. e = CallFactory 8 \<or> e = CallEffect 7) (log s)
              = [CallFactory 8, CallEffect 7]
          \<and> propvals (doms s 1) = [(''title'', Str ''m'')])"
proof -
  have "\<exists>s. effect_rendering = s \<and> wipFiber s = Some 4 \<and> oldHook_of s 4 = Some 0
           \<and> hookobjs s 0 = EffectHook (Deps [Num 1]) (Some 70)
           \<and> pendingFx (fibers s 4) = None \<and> nhook s = 2 \<and> hookIdx s = 0
           \<and> hooks (fibers s 4) = []"
    by (simp add: effect_rendering_def run_defs)
  then have s: "wipFiber effect_rendering = Some 4" "oldHook_of effect_rendering 4 = Some 0"
      "hookobjs effect_rendering 0 = EffectHook (Deps [Num 1]) (Some 70)"
      "pendingFx (fibers effect_rendering 4) = None" "nhook effect_rendering = 2"
      "hookIdx effect_rendering = 0" "hooks (fibers effect_rendering 4) = []"
    by auto
  have "\<exists>s. memo_rendering = s \<and> wipFiber s = Some 4 \<and> oldHook_of s 4 = Some 1
           \<and> hookobjs s 1 = MemoHook (Str ''m'') (Deps [Num 1])
           \<and> nhook s = 3 \<and> hookIdx s = 1 \<and> hooks (fibers s 4) = [Some 2]"
    by (simp add: memo_rendering_def effect_rendering_def run_defs)
  then have m: "wipFiber memo_rendering = Some 4" "oldHook_of memo_rendering 4 = Some 1"
      "hookobjs memo_rendering 1 = MemoHook (Str ''m'') (Deps [Num 1])"
      "nhook memo_rendering = 3" "hookIdx memo_rendering = 1"
      "hooks (fibers memo_rendering 4) = [Some 2]"
    by auto
  have d1: "\<not> deps_differ (Some (EffectHook (Deps [Num 1]) (Some 70))) (Deps [Num 1])"
    by (simp add: depsChanged_iff[symmetric] depsChanged_def strict_eq_def)
  have d2: "deps_differ (Some (EffectHook (Deps [Num 1]) (Some 70))) (Deps [Num 2])"
    by (simp add: depsChanged_iff[symmetric] depsChanged_def strict_eq_def)
  have d3: "\<not> deps_differ (Some (MemoHook (Str ''m'') (Deps [Num 1]))) (Deps [Num 1])"
    by (simp add: depsChanged_iff[symmetric] depsChanged_def strict_eq_def)
  have d4: "deps_differ (Some (MemoHook (Str ''m'') (Deps [Num 1]))) (Deps [Num 2])"
    by (simp add: depsChanged_iff[symmetric] depsChanged_def strict_eq_def)
  note T = effect_and_memo_rerun_on_changed_deps
  from T[OF s(1), of 7 "Deps [Num 1]"] obtain s1 where
    a1: "useEffect 7 (Deps [Num 1]) effect_rendering = Inr s1"
    and a2: "pendingFx (fibers s1 4) =
                (if deps_differ (map_option (hookobjs effect_rendering) (oldHook_of effect_rendering 4)) (Deps [Num 1])
                 then Some ((case pendingFx (fibers effect_rendering 4) of None \<Rightarrow> [] | Some q \<Rightarrow> q)
                        @ [\<lparr>effect = 7,
                            oldCleanup = (case oldHook_of effect_rendering 4 of None \<Rightarrow> None
                                          | Some oh \<Rightarrow> hook_cleanup (hookobjs effect_rendering oh)),
                            hook = nhook effect_rendering\<rparr>])
                 else pendingFx (fibers effect_rendering 4))"
    and a3: "hookobjs s1 (nhook effect_rendering) =
                EffectHook (Deps [Num 1]) (case oldHook_of effect_rendering 4 of None \<Rightarrow> None
                              | Some oh \<Rightarrow> hook_cleanup (hookobjs effect_rendering oh))"
    by blast
  have a4: "hooks (fibers s1 4) = [Some 2]"
    using a1 s by (auto simp: useEffect_def push_hook_def set_fiber_def Let_def js_set_def
        depsChanged_def strict_eq_def oldHook_of_def split: option.splits)
  from a1 a2 a3 a4 s d1
  have a: "\<exists>s'. useEffect 7 (Deps [Num 1]) effect_rendering = Inr s' \<and> pendingFx (fibers s' 4) = None
          \<and> hookobjs s' 2 = EffectHook (Deps [Num 1]) (Some 70) \<and> hooks (fibers s' 4) = [Some 2]"
    by simp
  from T[OF s(1), of 7 "Deps [Num 2]"] s d2
  have b: "\<exists>s'. useEffect 7 (Deps [Num 2]) effect_rendering = Inr s'
          \<and> pendingFx (fibers s' 4) = Some [\<lparr>effect = 7, oldCleanup = Some 70, hook = 2\<rparr>]"
    by auto
  from T[OF m(1), of 7 "Deps [Num 1]" 8 "Str ''fresh''"] m d3
  obtain s2 where c1: "useMemo 8 (Str ''fresh'') (Deps [Num 1]) memo_rendering = Inr (Str ''m'', s2)"
    "log s2 = log memo_rendering" "hookobjs s2 3 = MemoHook (Str ''m'') (Deps [Num 1])"
    by auto
  have c2: "hooks (fibers s2 4) = [Some 2, Some 3]"
    using c1(1) m by (auto simp: useMemo_def push_hook_def set_fiber_def Let_def js_set_def
        depsChanged_def strict_eq_def oldHook_of_def split: option.splits if_splits)
  from c1 c2 have c: "\<exists>s'. useMemo 8 (Str ''fresh'') (Deps [Num 1]) memo_rendering = Inr (Str ''m'', s')
          \<and> log s' = log memo_rendering
          \<and> hookobjs s' 3 = MemoHook (Str ''m'') (Deps [Num 1])
          \<and> hooks (fibers s' 4) = [Some 2, Some 3]" by blast
  from T[OF m(1), of 7 "Deps [Num 2]" 8 "Str ''fresh''"] m d4
  have e: "\<exists>s'. useMemo 8 (Str ''fresh'') (Deps [Num 2]) memo_rendering = Inr (Str ''fresh'', s')
          \<and> log s' = log memo_rendering @ [CallFactory 8]
          \<and> hookobjs s' 3 = MemoHook (Str ''fresh'') (Deps [Num 2])"
    by auto
  have f: "\<exists>s. mount (El (Comp 1) [] []) (mount (El (Comp 1) [] []) init_state) = s
          \<and> filter (\<lambda>e. e = CallFactory 8 \<or> e = CallEffect 7) (log s)
              = [CallFactory 8, CallEffect 7]
          \<and> propvals (doms s 1) = [(''title'', Str ''m'')]"
    by (simp add: run_defs)
  from a b c e f s(1) m(1) show ?thesis by blast
qed

lemma dispatch_no_root:
  "curRoot s = None \<Longrightarrow>
   dispatch_handle c a s = s\<lparr>cells := (cells s)(c := (cells s c)\<lparr>queue := queue (cells s c) @ [a]\<rparr>)\<rparr>"
  by (simp add: dispatch_handle_def scheduleUpdate_def)

text \<open>
  Claim C10 fails on the code in its last part. A dispatch handle called while no tree has
  been committed yet (\<^verbatim>\<open>curRoot\<close> is \<^verbatim>\<open>null\<close>) appends the action to its cell's queue and does
  nothing else: no root fiber is made, \<^verbatim>\<open>wipRoot\<close>, \<^verbatim>\<open>nextUnit\<close> and \<^verbatim>\<open>deletions\<close> keep their
  values and no callback is armed. When the pass in flight goes on to its commit, the next
  render of the counter folds the action in and shows 1. When the counter is rendered anew
  before that commit, the pass in flight is replaced, the cell is left behind with the
  action in its queue, and no later render applies it: the counter shows 0.
\<close>

theorem dispatch_before_first_commit:
  assumes "curRoot s = None"
  shows "queue (cells (dispatch_handle c a s) c) = queue (cells s c) @ [a]
       \<and> wipRoot (dispatch_handle c a s) = wipRoot s
       \<and> nextUnit (dispatch_handle c a s) = nextUnit s
       \<and> deletions (dispatch_handle c a s) = deletions s
       \<and> scheduled (dispatch_handle c a s) = scheduled s
       \<and> ric_pending (dispatch_handle c a s) = ric_pending s
       \<and> nfib (dispatch_handle c a s) = nfib s
       \<and> (\<exists>s1. early_click_kept = s1 \<and> queue (cells s1 0) = []
              \<and> propvals (doms s1 1) = [(''title'', Num 1)])
       \<and> (\<exists>s2. early_click_replaced = s2 \<and> nextUnit s2 = None
              \<and> queue (cells s2 0) = [Upd inc] \<and> queue (cells s2 1) = []
              \<and> hookobjs s2 2 = StateHook (Num 0) 1
              \<and> propvals (doms s2 1) = [(''title'', Num 0)]
              \<and> childNodes (doms s2 0) = [1])"
proof -
  have d: "dispatch_handle c a s
            = s\<lparr>cells := (cells s)(c := (cells s c)\<lparr>queue := queue (cells s c) @ [a]\<rparr>)\<rparr>"
    by (rule dispatch_no_root[OF assms])
  have k: "\<exists>s1. early_click_kept = s1 \<and> queue (cells s1 0) = []
              \<and> propvals (doms s1 1) = [(''title'', Num 1)]"
    by (simp add: early_click_kept_def counter_in_flight_def run_defs)
  have r: "\<exists>s2. early_click_replaced = s2 \<and> nextUnit s2 = None
              \<and> queue (cells s2 0) = [Upd inc] \<and> queue (cells s2 1) = []
              \<and> hookobjs s2 2 = StateHook (Num 0) 1
              \<and> propvals (doms s2 1) = [(''title'', Num 0)]
              \<and> childNodes (doms s2 0) = [1]"
    by (simp add: early_click_replaced_def counter_in_flight_def run_defs)
  show ?thesis unfolding d using k r by simp
qed

text \<open>
  While the first render of the counter is in flight its dispatch handle is called with the
  value 5: the action waits in the queue, and the one callback that was pending stays the
  only one.
\<close>

theorem dispatch_before_first_commit_witness:
  "curRoot counter_in_flight = None
   \<and> queue (cells (dispatch_handle 0 (Val (Num 5)) counter_in_flight) 0) = [Val (Num 5)]
   \<and> wipRoot (dispatch_handle 0 (Val (Num 5)) counter_in_flight) = Some 0
   \<and> ric_pending (dispatch_handle 0 (Val (Num 5)) counter_in_flight) = 1
   \<and> nfib (dispatch_handle 0 (Val (Num 5)) counter_in_flight) = 3"
proof -
  have "\<exists>s. counter_in_flight = s \<and> curRoot s = None \<and> queue (cells s 0) = []
           \<and> wipRoot s = Some 0 \<and> ric_pending s = 1 \<and> nfib s = 3"
    by (simp add: counter_in_flight_def run_defs)
  then have s: "curRoot counter_in_flight = None" "queue (cells counter_in_flight 0) = []"
      "wipRoot counter_in_flight = Some 0" "ric_pending counter_in_flight = 1"
      "nfib counter_in_flight = 3"
    by auto
  from dispatch_before_first_commit[OF s(1), of 0 "Val (Num 5)"] s show ?thesis by simp
qed

section \<open>The scheduler\<close>

lemma quiet_refl [simp]: "quiet s s" by (simp add: quiet_def)
lemma quiet_trans: "quiet a b \<Longrightarrow> quiet b c \<Longrightarrow> quiet a c" by (simp add: quiet_def)

lemma quiet_prims [simp]:
  "quiet s (emit e s)" "quiet s (set_fiber i g s)" "quiet s (set_dom j h s)"
  "quiet s (snd (new_fiber fb s))" "quiet s (mark_deletion i s)" "quiet s (appendChild p d s)"
  "quiet s (wire_ref pr d s)" "quiet s (flushFiberEffects i s)" "quiet s (begin_render i s)"
  by (auto simp: quiet_def emit_def set_fiber_def set_dom_def new_fiber_def mark_deletion_def
        appendChild_def wire_ref_def flushFiberEffects_def begin_render_def Let_def
      split: option.splits prod.splits jsval.splits)

lemma quiet_step: "quiet s a \<Longrightarrow> quiet a b \<Longrightarrow> quiet s b" by (rule quiet_trans)

lemma quiet_fold_mark: "quiet s (fold mark_deletion xs s)"
  by (induction xs arbitrary: s) (auto intro: quiet_trans[OF quiet_prims(5)])

lemma quiet_run_cleanups: "quiet s (run_cleanups hs s)"
proof (induction hs s rule: run_cleanups.induct)
  case (3 h hs s)
  then show ?case by (auto split: option.splits intro: quiet_trans[OF quiet_prims(1)])
qed simp_all

lemma quiet_run_effects: "quiet s (run_effects E items s)"
proof (induction items arbitrary: s)
  case (Cons it items)
  have "quiet s ((emit (CallEffect (effect it)) (case oldCleanup it of None \<Rightarrow> s | Some c \<Rightarrow> emit (CallCleanup c) s))
      \<lparr>hookobjs := X\<rparr>)" for X
    by (auto simp: quiet_def emit_def split: option.splits)
  then show ?case using Cons.IH by (auto simp: Let_def intro: quiet_trans)
qed simp

lemma quiet_removeChild: "removeChild p d s = Inr s' \<Longrightarrow> quiet s s'"
  by (auto simp: removeChild_def quiet_def emit_def set_dom_def split: if_splits)

lemma quiet_createDom: "createDom f s = Inr (d, s') \<Longrightarrow> quiet s s'"
  by (auto simp: createDom_def quiet_def emit_def wire_ref_def Let_def split: sum.splits option.splits prod.splits jsval.splits)

lemma quiet_push_hook: "push_hook w h s = (i, s') \<Longrightarrow> quiet s s'"
  by (auto simp: push_hook_def quiet_def set_fiber_def Let_def)

lemma quiet_useReducer: "useReducer r ini s = Inr (x, s') \<Longrightarrow> quiet s s'"
  by (auto simp: useReducer_def quiet_def push_hook_def set_fiber_def Let_def split: option.splits hook.splits)

lemma quiet_useEffect: "useEffect e d s = Inr s' \<Longrightarrow> quiet s s'"
  by (auto simp: useEffect_def quiet_def push_hook_def set_fiber_def Let_def split: option.splits if_splits)

lemma quiet_useMemo: "useMemo f r d s = Inr (x, s') \<Longrightarrow> quiet s s'"
  by (auto simp: useMemo_def quiet_def push_hook_def set_fiber_def emit_def Let_def split: option.splits if_splits)

lemma quiet_run_prog: "run_prog p s = Inr (x, s') \<Longrightarrow> quiet s s'"
proof (induction p arbitrary: s)
  case (Return d)
  then show ?case by simp
next
  case (UseReducer r ini k)
  from UseReducer.prems obtain v c s1 where u: "useReducer r ini s = Inr ((v, c), s1)"
    and rp: "run_prog (k v c) s1 = Inr (x, s')"
    by (auto split: sum.splits)
  from UseReducer.IH[of "k v" "k v c" s1, OF rangeI rangeI rp] quiet_useReducer[OF u]
  show ?case by (rule quiet_trans[rotated])
next
  case (UseState ini k)
  from UseState.prems obtain v c s1 where u: "useState ini s = Inr ((v, c), s1)"
    and rp: "run_prog (k v c) s1 = Inr (x, s')"
    by (auto split: sum.splits)
  from UseState.IH[of "k v" "k v c" s1, OF rangeI rangeI rp] quiet_useReducer[OF u[unfolded useState_def]]
  show ?case by (rule quiet_trans[rotated])
next
  case (UseEffect e d p)
  from UseEffect.prems obtain s1 where u: "useEffect e d s = Inr s1"
    and rp: "run_prog p s1 = Inr (x, s')"
    by (auto split: sum.splits)
  from UseEffect.IH[OF rp] quiet_useEffect[OF u]
  show ?case by (rule quiet_trans[rotated])
next
  case (UseMemo f r d k)
  from UseMemo.prems obtain v s1 where u: "useMemo f r d s = Inr (v, s1)"
    and rp: "run_prog (k v) s1 = Inr (x, s')"
    by (auto split: sum.splits)
  from UseMemo.IH[of "k v" s1, OF rangeI rp] quiet_useMemo[OF u]
  show ?case by (rule quiet_trans[rotated])
qed

lemma quiet_reconcile_one: "reconcile_one p i prev el old s = Inr (n, s') \<Longrightarrow> quiet s s'"
  by (auto simp: reconcile_one_def quiet_def new_fiber_def set_fiber_def mark_deletion_def
        link_fiber_def split: option.splits sum.splits if_splits bool.splits)

lemma quiet_find_old: "find_old el km bp pi s = (old, km1, pi1, s0) \<Longrightarrow> quiet s s0"
  by (auto simp: find_old_def native_object_def new_fiber_def quiet_def
        split: option.splits if_splits prod.splits)

lemma quiet_reconcile_loop:
  "reconcile_loop p byPos els i km pi prev s = Inr (km', pi', prev', s') \<Longrightarrow> quiet s s'"
proof (induction els arbitrary: i km pi prev s)
  case Nil
  then show ?case by simp
next
  case (Cons el els)
  obtain old km1 pi1 s0 where f: "find_old el km byPos pi s = (old, km1, pi1, s0)"
    by (cases "find_old el km byPos pi s") auto
  with Cons.prems obtain n s1 where r: "reconcile_one p i prev el old s0 = Inr (n, s1)"
    and l: "reconcile_loop p byPos els (Suc i) km1 pi1 (Some n) s1 = Inr (km', pi', prev', s')"
    by (auto split: sum.splits)
  from quiet_find_old[OF f] quiet_reconcile_one[OF r] Cons.IH[OF l] show ?case
    by (blast intro: quiet_trans)
qed

lemma quiet_reconcileChildren: "reconcileChildren p els s = Some (Inr s') \<Longrightarrow> quiet s s'"
proof -
  assume a: "reconcileChildren p els s = Some (Inr s')"
  then obtain km bp km1 pi prev s1 where
    l: "reconcile_loop p bp els 0 km 0 None s = Inr (km1, pi, prev, s1)"
    and e: "s' = (case prev of None \<Rightarrow> (\<lambda>x. x) | Some q \<Rightarrow> set_fiber q (\<lambda>x. x\<lparr>sibling := None\<rparr>))
              (fold mark_deletion (case km1 of None \<Rightarrow> [] | Some m \<Rightarrow> map snd (enum_order m))
                 (fold mark_deletion (drop pi bp) s1))"
    by (auto simp: reconcileChildren_def Let_def
          split: option.splits sum.splits prod.splits if_splits)
  have "quiet s1 s'" unfolding e
    by (cases prev)
       (auto intro: quiet_trans[OF quiet_fold_mark quiet_fold_mark]
          quiet_trans[OF quiet_trans[OF quiet_fold_mark quiet_fold_mark] quiet_prims(2)])
  with quiet_reconcile_loop[OF l] show ?thesis by (rule quiet_trans)
qed


lemma quiet_updateHostComponent: "updateHostComponent f s = Some (Inr s') \<Longrightarrow> quiet s s'"
  apply (auto simp: updateHostComponent_def split: option.splits sum.splits prod.splits)
   apply (auto dest!: quiet_reconcileChildren quiet_createDom intro: quiet_trans quiet_trans[OF _ quiet_trans[OF quiet_prims(2)]])
  done

lemma quiet_updateFunctionComponent: "updateFunctionComponent G f c s = Some (Inr s') \<Longrightarrow> quiet s s'"
  apply (auto simp: updateFunctionComponent_def split: option.splits sum.splits prod.splits)
  apply (auto dest!: quiet_reconcileChildren quiet_run_prog intro: quiet_trans[OF quiet_prims(9)] quiet_trans)
  done

lemma quiet_performUnit: "performUnit G f s = Some (Inr (n, s')) \<Longrightarrow> quiet s s'"
  by (auto simp: performUnit_def split: option.splits sum.splits ftype.splits
      dest: quiet_updateHostComponent quiet_updateFunctionComponent)

lemma quiet_work_units: "work_units G b s = Some (Inr s') \<Longrightarrow> quiet s s'"
proof (induction G b s rule: work_units.induct)
  case (1 G budget s)
  show ?case
  proof (cases "budget = 0 \<or> nextUnit s = None")
    case True
    with "1.prems" show ?thesis by (auto simp: work_units.simps[of G budget s] split: if_splits)
  next
    case False
    then obtain f where f: "nextUnit s = Some f" and b: "budget \<noteq> 0" by auto
    with "1.prems" obtain n s1 where p: "performUnit G f s = Some (Inr (n, s1))"
      and w: "work_units G (budget - 1) (s1\<lparr>nextUnit := n\<rparr>) = Some (Inr s')"
      by (auto simp: work_units.simps[of G budget s] split: option.splits sum.splits)
    from "1.IH"[OF b f p refl refl w] quiet_performUnit[OF p]
    show ?thesis by (auto simp: quiet_def)
  qed
qed


lemma quiet_removeFiberDom_aux:
  "removeFiberDom f p s = Some r \<Longrightarrow> \<forall>s'. r = Inr s' \<longrightarrow> quiet s s'"
  apply (rule removeFiberDom.raw_induct[where P = "\<lambda>f p s r. \<forall>s'. r = Inr s' \<longrightarrow> quiet s s'"])
   prefer 2 apply assumption
  apply (auto split: option.splits dest: quiet_removeChild)
  done

lemma quiet_removeFiberDom: "removeFiberDom f p s = Some (Inr s') \<Longrightarrow> quiet s s'"
  using quiet_removeFiberDom_aux by blast

lemma quiet_cleanupEffectTree: "cleanupEffectTree f s = Some s' \<Longrightarrow> quiet s s'"
  apply (rule cleanupEffectTree.raw_induct[where P = "\<lambda>f s s'. quiet s s'"])
   prefer 2 apply assumption
  apply (auto split: option.splits intro: quiet_trans[OF quiet_run_cleanups])
  done

lemma quiet_commitDeletion: "commitDeletion f p s = Some (Inr s') \<Longrightarrow> quiet s s'"
  by (auto simp: commitDeletion_def split: option.splits sum.splits
      dest!: quiet_removeFiberDom quiet_cleanupEffectTree intro: quiet_trans)

lemma quiet_commit_frame: "commit_frame f p s = Some (Inr (pushed, s')) \<Longrightarrow> quiet s s'"
  apply (simp add: commit_frame_def Let_def split: if_splits option.splits sum.splits prod.splits)
     apply (auto dest!: quiet_commitDeletion intro: quiet_trans[OF _ quiet_prims(8)] quiet_trans[OF quiet_prims(6) quiet_prims(8)])
  apply (auto simp: quiet_def flushFiberEffects_def wire_ref_def emit_def set_fiber_def split: option.splits prod.splits jsval.splits)
  done

lemma quiet_commit_loop_aux:
  "commit_loop st s = Some r \<Longrightarrow> \<forall>s'. r = Inr s' \<longrightarrow> quiet s s'"
  apply (rule commit_loop.raw_induct[where P = "\<lambda>st s r. \<forall>s'. r = Inr s' \<longrightarrow> quiet s s'"])
   prefer 2 apply assumption
  apply (auto split: list.splits option.splits sum.splits dest!: quiet_commit_frame intro: quiet_trans)
  done

lemma quiet_commitWork: "commitWork f p s = Some (Inr s') \<Longrightarrow> quiet s s'"
  using quiet_commit_loop_aux by (auto simp: commitWork_def)

lemma quiet_commit_deletions: "commit_deletions fs s = Some (Inr s') \<Longrightarrow> quiet s s'"
  by (induction fs arbitrary: s)
     (auto split: option.splits sum.splits dest!: quiet_commitWork intro: quiet_trans)

lemma quiet_commitRoot: "commitRoot E s = Some (Inr s') \<Longrightarrow> quiet s s'"
  apply (auto simp: commitRoot_def Let_def split: option.splits sum.splits dest!: quiet_commit_deletions quiet_commitWork)
   apply (rule quiet_trans, assumption)
   apply (rule quiet_trans[OF _ quiet_run_effects])
   apply (simp add: quiet_def emit_def)
  apply (rule quiet_trans, assumption)
  apply (rule quiet_trans, assumption)
  apply (rule quiet_trans[OF _ quiet_run_effects])
  apply (simp add: quiet_def emit_def)
  done

lemma sched_inv_scheduleWork: "sched_inv s \<Longrightarrow> sched_inv (scheduleWork s)"
  by (auto simp: sched_inv_def scheduleWork_def)

lemma sched_inv_render: "sched_inv s \<Longrightarrow> sched_inv (render el c s)"
  by (auto simp: sched_inv_def render_def scheduleWork_def new_fiber_def Let_def)

lemma sched_inv_dispatch: "sched_inv s \<Longrightarrow> sched_inv (dispatch_handle cl a s)"
  by (auto simp: sched_inv_def dispatch_handle_def scheduleUpdate_def scheduleWork_def
        new_fiber_def Let_def split: option.splits)

lemma workLoop_rearms:
  assumes w: "workLoop G E b s = Some (Inr s')" and p: "ric_pending s = 0"
  shows "sched_inv s' \<and> (scheduled s' \<longleftrightarrow> nextUnit s' \<noteq> None)"
proof -
  from w obtain s1 where u: "work_units G b (s\<lparr>scheduled := False\<rparr>) = Some (Inr s1)"
    by (auto simp: workLoop_def split: option.splits sum.splits)
  from quiet_work_units[OF u] p have q1: "scheduled s1 = False" "ric_pending s1 = 0"
    by (auto simp: quiet_def)
  from w u obtain s2 where
    c: "(if nextUnit s1 = None \<and> wipRoot s1 \<noteq> None then commitRoot E s1 else Some (Inr s1)) = Some (Inr s2)"
    and e: "s' = (if nextUnit s2 \<noteq> None then scheduleWork s2 else s2)"
    by (auto simp: workLoop_def split: option.splits sum.splits)
  have "quiet s1 s2"
    using c by (auto split: if_splits dest: quiet_commitRoot)
  with q1 have q2: "scheduled s2 = False" "ric_pending s2 = 0"
    by (auto simp: quiet_def)
  show ?thesis
    using e q2 by (auto simp: sched_inv_def scheduleWork_def)
qed

lemma idle_callback_inv:
  assumes i: "sched_inv s" and w: "idle_callback G E b s = Some (Inr s')"
  shows "sched_inv s' \<and> (0 < ric_pending s \<longrightarrow> (scheduled s' \<longleftrightarrow> nextUnit s' \<noteq> None))"
proof (cases "ric_pending s = 0")
  case True
  with w i show ?thesis by (simp add: idle_callback_def)
next
  case False
  with i have "ric_pending s = 1" by (auto simp: sched_inv_def split: if_splits)
  with w have "workLoop G E b (s\<lparr>ric_pending := 0\<rparr>) = Some (Inr s')"
    by (simp add: idle_callback_def)
  from workLoop_rearms[OF this] show ?thesis by simp
qed

lemma reachable_inv: "reachable G E s \<Longrightarrow> sched_inv s"
proof (induction rule: reachable.induct)
  case start
  show ?case by (simp add: sched_inv_def init_state_def)
next
  case (rendered s el c)
  then show ?case by (simp add: sched_inv_render)
next
  case (dispatched s cl a)
  then show ?case by (simp add: sched_inv_dispatch)
next
  case (fired s b s')
  then show ?case using idle_callback_inv by blast
qed

text \<open>
  Claim C9. In every state the module can reach at most one callback is pending, and the
  flag \<^verbatim>\<open>scheduled\<close> tells whether one is. \<^verbatim>\<open>scheduleWork\<close> changes nothing when the flag is set,
  and otherwise sets it and hands one callback to the host. When the pending callback has
  fired and returned, a callback is pending again exactly when a unit of work remains.
\<close>

theorem at_most_one_callback_pending:
  "(reachable \<Gamma> \<E> s \<longrightarrow> ric_pending s \<le> 1 \<and> (scheduled s \<longleftrightarrow> ric_pending s = 1))
   \<and> (scheduled s \<longrightarrow> scheduleWork s = s)
   \<and> (\<not> scheduled s \<longrightarrow>
        scheduled (scheduleWork s) \<and> ric_pending (scheduleWork s) = Suc (ric_pending s))
   \<and> (reachable \<Gamma> \<E> s \<and> 0 < ric_pending s \<and> idle_callback \<Gamma> \<E> b s = Some (Inr s') \<longrightarrow>
        ric_pending s' = (if nextUnit s' \<noteq> None then 1 else 0))"
proof (intro conjI impI)
  assume "reachable \<Gamma> \<E> s"
  from reachable_inv[OF this] show "ric_pending s \<le> 1" "scheduled s \<longleftrightarrow> ric_pending s = 1"
    by (auto simp: sched_inv_def split: if_splits)
next
  assume "scheduled s" then show "scheduleWork s = s" by (simp add: scheduleWork_def)
next
  assume "\<not> scheduled s"
  then show "scheduled (scheduleWork s)" "ric_pending (scheduleWork s) = Suc (ric_pending s)"
    by (simp_all add: scheduleWork_def)
next
  assume a: "reachable \<Gamma> \<E> s \<and> 0 < ric_pending s \<and> idle_callback \<Gamma> \<E> b s = Some (Inr s')"
  then have i: "sched_inv s" and w: "idle_callback \<Gamma> \<E> b s = Some (Inr s')"
    by (auto intro: reachable_inv)
  from idle_callback_inv[OF i w] a
  show "ric_pending s' = (if nextUnit s' \<noteq> None then 1 else 0)"
    by (auto simp: sched_inv_def)
qed

text \<open>
  After \<^verbatim>\<open>render\<close> one callback is pending and a second \<^verbatim>\<open>scheduleWork\<close> is a no-op; fired
  with time for one unit, the callback leaves work behind and one callback pending; fired
  with time for all of it, none.
\<close>

theorem at_most_one_callback_pending_witness:
  "ric_pending (render (El (Comp 0) [] []) 0 init_state) = 1
   \<and> scheduleWork (render (El (Comp 0) [] []) 0 init_state) = render (El (Comp 0) [] []) 0 init_state
   \<and> (\<exists>s'. idle_callback demo_components demo_effects 1 (render (El (Comp 0) [] []) 0 init_state)
             = Some (Inr s') \<and> nextUnit s' = Some 1 \<and> ric_pending s' = 1)
   \<and> (\<exists>s'. idle_callback demo_components demo_effects 100 (render (El (Comp 0) [] []) 0 init_state)
             = Some (Inr s') \<and> nextUnit s' = None \<and> ric_pending s' = 0)"
proof -
  let ?s = "render (El (Comp 0) [] []) 0 init_state"
  have r: "reachable demo_components demo_effects ?s"
    by (intro reachable.rendered reachable.start)
  have e: "scheduled ?s" "ric_pending ?s = 1"
    by (simp_all add: render_def init_state_def new_fiber_def scheduleWork_def)
  have f1: "\<exists>s'. idle_callback demo_components demo_effects 1 ?s = Some (Inr s') \<and> nextUnit s' = Some 1"
    by (simp add: run_defs)
  have f2: "\<exists>s'. idle_callback demo_components demo_effects 100 ?s = Some (Inr s') \<and> nextUnit s' = None"
    by (simp add: run_defs)
  from f1 obtain s1 where s1: "idle_callback demo_components demo_effects 1 ?s = Some (Inr s1)"
    "nextUnit s1 = Some 1" by blast
  from f2 obtain s2 where s2: "idle_callback demo_components demo_effects 100 ?s = Some (Inr s2)"
    "nextUnit s2 = None" by blast
  from at_most_one_callback_pending[of demo_components demo_effects ?s 1 s1] r e s1
  have a: "ric_pending s1 = 1" by simp
  from at_most_one_callback_pending[of demo_components demo_effects ?s 100 s2] r e s2
  have b: "ric_pending s2 = 0" by simp
  from at_most_one_callback_pending[of demo_components demo_effects ?s] e
  have c: "scheduleWork ?s = ?s" by simp
  from a b c e s1 s2 show ?thesis by blast
qed

section \<open>Flattening and unmounting on the example programs\<close>

text \<open>
  Claim C7 fails on the code. \<^verbatim>\<open>createElement\<close> and \<^verbatim>\<open>flatPush\<close> wrap a text child into a text
  description, but \<^verbatim>\<open>flattenChildren\<close>, which flattens what a component returns, passes it on
  as it is; the fiber made for it has no props, and its unit of work throws.
\<close>

theorem flattenChildren_keeps_text_uncoerced:
  "flattenChildren (Prim (Str ''hi'')) = [Prim (Str ''hi'')]
   \<and> flatPush [] [Prim (Str ''hi'')] = [createTextElement ''hi'']
   \<and> idle_callback demo_components demo_effects 100 (render (El (Comp 2) [] []) 0 init_state)
       = Some (Inl TypeError)"
  by (simp add: run_defs createTextElement_def)

text \<open>
  Claim C6 fails on the code. When the \<^verbatim>\<open>div\<close> is replaced, its node is detached from the
  container, but \<^verbatim>\<open>cleanupEffectTree\<close> only follows first children: the cleanup 70 of the
  component is called when the component is the first child of the \<^verbatim>\<open>div\<close>, and is never
  called when the paragraph comes first.
\<close>

theorem unmount_skips_cleanups_off_first_child_chain:
  "(\<exists>s. mount replacement (mount panel_effect_last init_state) = s
        \<and> hook_cleanup (hookobjs s 0) = Some 70
        \<and> RemoveChild 0 1 \<in> set (log s) \<and> CallCleanup 70 \<notin> set (log s))
   \<and> (\<exists>s. mount replacement (mount panel_effect_first init_state) = s
        \<and> RemoveChild 0 1 \<in> set (log s) \<and> CallCleanup 70 \<in> set (log s))"
  by (simp add: run_defs panel_effect_last_def panel_effect_first_def replacement_def)

section \<open>The order of a commit\<close>











lemma walks_single: "walks s [(f, p)] e v \<Longrightarrow> walk s (Some f) p e v"
  by (auto elim!: walks.cases)


text \<open>The removal of a fiber.\<close>

lemma descent_cong: "fibers s1 = fibers s \<Longrightarrow> descent s1 f xs = descent s f xs"
  by (induction xs arbitrary: f) simp_all

lemma descent_log [simp]: "descent (s\<lparr>log := l\<rparr>) f xs = descent s f xs"
  by (rule descent_cong) simp



lemma descent_fun: "descent s f xs \<Longrightarrow> descent s f ys \<Longrightarrow> xs = ys"
proof (induction xs arbitrary: f ys)
  case Nil
  then show ?case by (cases ys) auto
next
  case (Cons x xs)
  then show ?case by (cases ys) auto
qed

lemma descent_None [simp]: "descent s None xs \<longleftrightarrow> xs = []"
  by (cases xs) auto


lemma first_node_Nil [simp]: "first_node s [] = None"
  by (simp add: first_node_def)

lemma first_node_Cons [simp]:
  "first_node s (a # xs) = (case fdom (fibers s a) of Some d \<Rightarrow> Some d | None \<Rightarrow> first_node s xs)"
  by (simp add: first_node_def split: option.splits)




lemma walks_Nil_iff [simp]: "walks s [] e v \<longleftrightarrow> e = [] \<and> v = []"
  by (auto elim: walks.cases intro: walks.intros)





lemma queued_keep: "fibers s1 x = fibers s x \<Longrightarrow> queued s1 x = queued s x"
  by (simp add: queued_def)







end
